theory Spec2Isabelle
  imports Main "HOL-Library.Multiset" "HOL-Library.Sublist" "HOL-Library.Word"
begin

section \<open>JavaScript values at the boundaries of the program\<close>

text \<open>
  The program is a browser script (\<^verbatim>\<open>public/script.js\<close>) and an Express server
  (\<^verbatim>\<open>server.js\<close>). Both read JSON whose leaves are tested with JavaScript's
  truthiness and strict equality, so a leaf that the code compares as it arrives is a
  \<open>jsval\<close>. A field that may be missing is an \<open>option\<close>: \<open>None\<close> stands for an absent
  member, \<^verbatim>\<open>null\<close> or \<^verbatim>\<open>undefined\<close>.
\<close>

datatype jsval = JUndefined | JNull | JBool bool | JNum int | JStr string

text \<open>An exception is a value; the only field the handlers read is its message.\<close>

datatype js_error = TypeError | SyntaxError | Error string

text \<open>A number in a template literal: its decimal digits.\<close>

fun decimal :: "nat \<Rightarrow> string" where
  "decimal n =
     (if n < 10 then [char_of (48 + n)]
      else decimal (n div 10) @ [char_of (48 + n mod 10)])"

declare decimal.simps [simp del]

text \<open>\<^verbatim>\<open>a || b\<close> on strings that may be missing: the empty string is falsy.\<close>

fun truthy_str :: "string option \<Rightarrow> bool" where
  "truthy_str None = False"
| "truthy_str (Some s) = (s \<noteq> [])"

definition js_or :: "string option \<Rightarrow> string option \<Rightarrow> string option" where
  "js_or a b = (if truthy_str a then a else b)"

text \<open>\<^verbatim>\<open>a || 'literal'\<close>.\<close>

definition js_or_default :: "string option \<Rightarrow> string \<Rightarrow> string" where
  "js_or_default a d = (case a of None \<Rightarrow> d | Some s \<Rightarrow> if s = [] then d else s)"

text \<open>
  \<^verbatim>\<open>Math.round(a / b)\<close> for integers \<open>a\<close> and \<open>0 < b\<close>: the nearest integer, a tie going
  up, that is \<open>\<lfloor>a / b + 1/2\<rfloor>\<close>. The script divides a difference of two time values by
  60000 in doubles. With a clock that reads a time after 1970, a difference of at least
  \<open>-30000\<close> is exact and its quotient is below \<open>2^38\<close>, where a double is within
  \<open>2^-16 < 1/60000\<close> of the exact quotient: it cannot reach the next half, and
  \<^verbatim>\<open>Math.round\<close> of it is the integer below. A smaller difference gives a negative
  result either way.
\<close>

definition Math_round_quot :: "int \<Rightarrow> int \<Rightarrow> int" where
  "Math_round_quot a b = (2 * a + b) div (2 * b)"


section \<open>Predictions: the stop-monitoring data and its extraction\<close>

text \<open>
  The stop-monitoring JSON, down the path the script walks:
  \<^verbatim>\<open>stopData.ServiceDelivery.StopMonitoringDelivery.MonitoredStopVisit[i]
      .MonitoredVehicleJourney.MonitoredCall.{ExpectedArrivalTime, DestinationDisplay, VehicleAtStop}\<close>.
  \<open>ExpectedArrivalTime\<close> is \<open>None\<close> when the member is absent, null or empty. A truthy
  value is held as \<^verbatim>\<open>new Date(...)\<close> reads it: an instant, with its epoch milliseconds
  (the feed's ISO-8601 time), or not a date (a text such as \<^verbatim>\<open>'soon'\<close>), for which the
  \<^verbatim>\<open>Date\<close> is invalid and every arithmetic on it gives \<^verbatim>\<open>NaN\<close>.
\<close>

datatype arrival_time = Instant int | NotADate

text \<open>A number of the script that is a whole number or \<^verbatim>\<open>NaN\<close>.\<close>

datatype jsnum = Num int | NaN

record call =
  ExpectedArrivalTime :: "arrival_time option"
  DestinationDisplay :: "string option"
  VehicleAtStop :: jsval

record journey =
  MonitoredCall :: "call option"
  DestinationName :: "string option"

record visit =
  MonitoredVehicleJourney :: "journey option"

text \<open>
  \<open>MonitoredStopVisit\<close> is an array of visits, an entry of which may be null, or some
  other truthy value that has no \<^verbatim>\<open>map\<close> method.
\<close>

datatype visits_value = VisitArray "visit option list" | NotAnArray

record delivery =
  MonitoredStopVisit :: "visits_value option"

record service =
  StopMonitoringDelivery :: "delivery option"

record stop_data =
  stopName :: "string option"
  ServiceDelivery :: "service option"

record prediction =
  minutes :: jsnum
  destination :: "string option"
  atStop :: bool

text \<open>\<^verbatim>\<open>Math.round((arrivalTime - now) / 60000)\<close>.\<close>

definition minutes_between :: "arrival_time \<Rightarrow> int \<Rightarrow> jsnum" where
  "minutes_between arrivalTime now =
     (case arrivalTime of
        Instant t \<Rightarrow> Num (Math_round_quot (t - now) 60000)
      | NotADate \<Rightarrow> NaN)"

text \<open>\<^verbatim>\<open>x < 0\<close>: false of \<^verbatim>\<open>NaN\<close>.\<close>

fun below_zero :: "jsnum \<Rightarrow> bool" where
  "below_zero (Num n) = (n < 0)"
| "below_zero NaN = False"

text \<open>\<^verbatim>\<open>x - y\<close>.\<close>

fun js_minus :: "jsnum \<Rightarrow> jsnum \<Rightarrow> jsnum" where
  "js_minus (Num a) (Num b) = Num (a - b)"
| "js_minus _ _ = NaN"

text \<open>
  The body of the callback given to \<^verbatim>\<open>visits.map\<close>, inside its \<^verbatim>\<open>try\<close>. \<open>now\<close> is what
  \<^verbatim>\<open>new Date()\<close> reads while this visit is processed. Reading a member of a null visit
  throws; \<open>Inr None\<close> is the callback's \<^verbatim>\<open>return null\<close>.
\<close>

definition visit_try :: "int \<Rightarrow> visit option \<Rightarrow> js_error + prediction option" where
  "visit_try now v =
     (case v of
        None \<Rightarrow> Inl TypeError
      | Some vis \<Rightarrow>
          (case MonitoredVehicleJourney vis of
             None \<Rightarrow> Inr None
           | Some j \<Rightarrow>
               (case MonitoredCall j of
                  None \<Rightarrow> Inr None
                | Some c \<Rightarrow>
                    (case ExpectedArrivalTime c of
                       None \<Rightarrow> Inr None
                     | Some arrivalTime \<Rightarrow>
                         (let minutesAway = minutes_between arrivalTime now
                          in if below_zero minutesAway then Inr None
                             else Inr (Some \<lparr> minutes = minutesAway,
                                              destination = js_or (DestinationDisplay c) (DestinationName j),
                                              atStop = (VehicleAtStop c = JStr ''true'') \<rparr>))))))"

text \<open>The callback with its \<^verbatim>\<open>catch\<close>: an exception is logged and the visit yields null.\<close>

definition visit_callback :: "int \<Rightarrow> visit option \<Rightarrow> prediction option" where
  "visit_callback now v = (case visit_try now v of Inl e \<Rightarrow> None | Inr r \<Rightarrow> r)"

text \<open>
  \<^verbatim>\<open>array.sort(comparefn)\<close>. The sort reads the comparator's answer through
  \<open>SortCompare\<close>, where \<^verbatim>\<open>NaN\<close> counts as 0, and it is stable. With a consistent
  comparator the result is the one stable sorted arrangement, which insertion computes.
  A comparator that answers \<^verbatim>\<open>NaN\<close> is not consistent and the standard leaves the order
  to the implementation; insertion then moves an element only past those it compares
  above, so nothing passes an element with \<^verbatim>\<open>NaN\<close>, as in the engines' merge sorts.
\<close>

fun SortCompare :: "jsnum \<Rightarrow> int" where
  "SortCompare (Num v) = v"
| "SortCompare NaN = 0"

fun insert_sorted :: "('a \<Rightarrow> 'a \<Rightarrow> jsnum) \<Rightarrow> 'a \<Rightarrow> 'a list \<Rightarrow> 'a list" where
  "insert_sorted comparefn x [] = [x]"
| "insert_sorted comparefn x (y # ys) =
     (if SortCompare (comparefn x y) \<le> 0 then x # y # ys
      else y # insert_sorted comparefn x ys)"

definition Array_sort :: "('a \<Rightarrow> 'a \<Rightarrow> jsnum) \<Rightarrow> 'a list \<Rightarrow> 'a list" where
  "Array_sort comparefn xs = foldr (insert_sorted comparefn) xs []"

text \<open>The comparator \<^verbatim>\<open>(a, b) => a.minutes - b.minutes\<close>.\<close>

definition by_minutes :: "prediction \<Rightarrow> prediction \<Rightarrow> jsnum" where
  "by_minutes a b = js_minus (minutes a) (minutes b)"

text \<open>
  The body of \<^verbatim>\<open>extractPredictions\<close> inside the outer \<^verbatim>\<open>try\<close>. \<open>clock i\<close> is the
  reading of \<^verbatim>\<open>new Date()\<close> at the \<open>i\<close>-th visit. \<^verbatim>\<open>filter(p => p !== null)\<close> keeps the
  predictions, which are then sorted with the comparator.
\<close>

definition mapped_visits :: "(nat \<Rightarrow> int) \<Rightarrow> visit option list \<Rightarrow> prediction option list" where
  "mapped_visits clock vs = map (\<lambda>(i, v). visit_callback (clock i) v) (enumerate 0 vs)"

definition extract_try :: "(nat \<Rightarrow> int) \<Rightarrow> stop_data option \<Rightarrow> js_error + prediction list" where
  "extract_try clock stopData =
     (case stopData of
        None \<Rightarrow> Inr []
      | Some d \<Rightarrow>
          (case ServiceDelivery d of
             None \<Rightarrow> Inr []
           | Some sd \<Rightarrow>
               (case StopMonitoringDelivery sd of
                  None \<Rightarrow> Inr []
                | Some smd \<Rightarrow>
                    (case MonitoredStopVisit smd of
                       None \<Rightarrow> Inr []
                     | Some NotAnArray \<Rightarrow> Inl TypeError
                     | Some (VisitArray visits) \<Rightarrow>
                         Inr (Array_sort by_minutes
                                (List.map_filter (\<lambda>p. p) (mapped_visits clock visits)))))))"

definition extractPredictions :: "(nat \<Rightarrow> int) \<Rightarrow> stop_data option \<Rightarrow> prediction list" where
  "extractPredictions clock stopData =
     (case extract_try clock stopData of Inl e \<Rightarrow> [] | Inr ps \<Rightarrow> ps)"

text \<open>A stop's data holding the visit array \<open>vs\<close>.\<close>

definition stop_with_visits :: "string option \<Rightarrow> visit option list \<Rightarrow> stop_data" where
  "stop_with_visits nm vs =
     \<lparr> stopName = nm,
       ServiceDelivery = Some \<lparr> StopMonitoringDelivery =
                           Some \<lparr> MonitoredStopVisit = Some (VisitArray vs) \<rparr> \<rparr> \<rparr>"

section \<open>The server: predictions endpoint\<close>

text \<open>
  A response of an Express handler: \<^verbatim>\<open>res.json(body)\<close>, or
  \<^verbatim>\<open>res.status(500).json({ error: ... })\<close>, whose text is fixed or ends with the caught
  error's message.
\<close>

datatype error_body = Failed string | FailedWith string js_error

datatype 'a response = Status200 'a | Status500 error_body

text \<open>What \<^verbatim>\<open>axios.get\<close> gives as \<^verbatim>\<open>response.data\<close>: nothing, or an object that may hold \<open>ServiceDelivery\<close>.\<close>

datatype upstream_data = NoData | Data "service option"

record predictions_body =
  inbound :: "stop_data option"
  outbound :: "stop_data option"

text \<open>The table \<open>STOPS\<close>, read at stop ids only.\<close>

definition STOPS :: "string \<rightharpoonup> string" where
  "STOPS = [''17109'' \<mapsto> ''Inbound to Downtown'', ''16503'' \<mapsto> ''Outbound to Ocean Beach'']"

definition stop_label :: "string \<Rightarrow> string" where
  "stop_label sid = (case STOPS sid of Some n \<Rightarrow> n | None \<Rightarrow> ''Stop #'' @ sid)"

text \<open>\<^verbatim>\<open>inbound.ServiceDelivery\<close>: a member read, which throws when there is no data.\<close>

definition read_ServiceDelivery :: "upstream_data \<Rightarrow> js_error + service option" where
  "read_ServiceDelivery d = (case d of NoData \<Rightarrow> Inl TypeError | Data sd \<Rightarrow> Inr sd)"

text \<open>
  \<^verbatim>\<open>Promise.all([getStopPredictions(in), getStopPredictions(out)])\<close>: both calls are
  started; the result is the pair of their data, or the rejection of one that failed.
  \<open>getStopPredictions\<close> rethrows what \<^verbatim>\<open>axios.get\<close> threw, so a call is its outcome
  \<open>js_error + upstream_data\<close>.
\<close>

definition Promise_all2 :: "js_error + 'a \<Rightarrow> js_error + 'b \<Rightarrow> js_error + ('a \<times> 'b)" where
  "Promise_all2 a b =
     (case a of Inl e \<Rightarrow> Inl e
      | Inr x \<Rightarrow> (case b of Inl e \<Rightarrow> Inl e | Inr y \<Rightarrow> Inr (x, y)))"

definition predictions_try ::
  "string option \<Rightarrow> string option \<Rightarrow> string option \<Rightarrow> (string \<Rightarrow> js_error + upstream_data)
     \<Rightarrow> js_error + predictions_body" where
  "predictions_try TRANSIT_API_KEY query_inbound query_outbound getStopPredictions =
     (let inboundStopId = js_or_default query_inbound ''17109'';
          outboundStopId = js_or_default query_outbound ''16503''
      in if \<not> truthy_str TRANSIT_API_KEY
         then Inl (Error ''Transit API key not configured. Please set up your 511.org API key.'')
         else
           (case Promise_all2 (getStopPredictions inboundStopId) (getStopPredictions outboundStopId) of
              Inl e \<Rightarrow> Inl e
            | Inr (inb, outb) \<Rightarrow>
                (case read_ServiceDelivery inb of
                   Inl e \<Rightarrow> Inl e
                 | Inr isd \<Rightarrow>
                     (case read_ServiceDelivery outb of
                        Inl e \<Rightarrow> Inl e
                      | Inr osd \<Rightarrow>
                          Inr \<lparr> inbound = Some \<lparr> stopName = Some (stop_label inboundStopId),
                                                   ServiceDelivery = isd \<rparr>,
                                outbound = Some \<lparr> stopName = Some (stop_label outboundStopId),
                                                    ServiceDelivery = osd \<rparr> \<rparr>))))"

definition predictions_handler ::
  "string option \<Rightarrow> string option \<Rightarrow> string option \<Rightarrow> (string \<Rightarrow> js_error + upstream_data)
     \<Rightarrow> predictions_body response" where
  "predictions_handler key qi qo getStopPredictions =
     (case predictions_try key qi qo getStopPredictions of
        Inl e \<Rightarrow> Status500 (Failed ''Failed to fetch predictions'')
      | Inr body \<Rightarrow> Status200 body)"


section \<open>The server: vehicle positions endpoint\<close>

text \<open>
  The decoded GTFS-realtime message, as far as the handler reads it. A 64-bit field is
  a \<open>Long\<close>: two 32-bit words and a signedness flag; JavaScript reads \<open>low\<close> and \<open>high\<close>
  as signed 32-bit numbers. Coordinates are floats that the handler only copies, so
  their type is a parameter.
\<close>

record Long =
  low :: "32 word"
  high :: "32 word"
  unsigned :: bool

record TripDescriptor =
  routeId :: string
  directionId :: nat

record VehicleDescriptor =
  id' :: string

record 'f Position =
  latitude :: 'f
  longitude :: 'f
  speed :: 'f

record 'f VehiclePosition =
  trip :: "TripDescriptor option"
  vehicle :: "VehicleDescriptor option"
  position :: "'f Position option"
  currentStopSequence :: nat
  stopId :: string
  currentStatus :: int
  timestamp :: Long

record 'f FeedEntity =
  vehicle :: "'f VehiclePosition option"

record 'f FeedMessage =
  entity :: "'f FeedEntity list"

text \<open>The object built for each train, before and after \<open>readableStatus\<close> is added to it.\<close>

record 'f train =
  trainId :: string
  routeId :: string
  direction :: nat
  stopId :: string
  currentStopSequence :: nat
  currentStatus :: int
  latitude :: "'f option"
  longitude :: "'f option"
  speed :: "'f option"
  timestamp :: Long
  rawTimestamp :: Long

record 'f train_out = "'f train" +
  readableStatus :: string

text \<open>The response body; the client checks that \<open>vehicles\<close> is there.\<close>

record 'f vehicles_body =
  vehicles :: "'f train_out list option"

text \<open>The lines, as the script's \<open>trainLines\<close> and the handler's filter both list them.\<close>

definition trainLines :: "string list" where
  "trainLines = [''J'', ''K'', ''L'', ''M'', ''N'', ''T'']"

text \<open>The predicate of \<^verbatim>\<open>feed.entity.filter\<close>.\<close>

definition is_sfMtaTrain :: "'f FeedEntity \<Rightarrow> bool" where
  "is_sfMtaTrain e =
     (case FeedEntity.vehicle e of
        None \<Rightarrow> False
      | Some v \<Rightarrow>
          (case trip v of
             None \<Rightarrow> False
           | Some t \<Rightarrow> TripDescriptor.routeId t \<in> set trainLines))"

text \<open>
  The callback of \<^verbatim>\<open>sfMtaTrains.map\<close>. \<^verbatim>\<open>vehicle.trip.routeId\<close> throws on an entity
  without a vehicle or a trip; \<^verbatim>\<open>${vehicle.vehicle?.id}\<close> prints \<^verbatim>\<open>undefined\<close> when the
  descriptor is missing.
\<close>

definition vehicle_id_text :: "VehicleDescriptor option \<Rightarrow> string" where
  "vehicle_id_text d = (case d of None \<Rightarrow> ''undefined'' | Some vd \<Rightarrow> VehicleDescriptor.id' vd)"

definition prettify :: "'f FeedEntity \<Rightarrow> js_error + 'f train" where
  "prettify e =
     (case FeedEntity.vehicle e of
        None \<Rightarrow> Inl TypeError
      | Some v \<Rightarrow>
          (case trip v of
             None \<Rightarrow> Inl TypeError
           | Some t \<Rightarrow>
               Inr \<lparr> trainId = TripDescriptor.routeId t @ vehicle_id_text (VehiclePosition.vehicle v),
                     routeId = TripDescriptor.routeId t,
                     direction = directionId t,
                     stopId = VehiclePosition.stopId v,
                     currentStopSequence = VehiclePosition.currentStopSequence v,
                     currentStatus = VehiclePosition.currentStatus v,
                     latitude = map_option Position.latitude (position v),
                     longitude = map_option Position.longitude (position v),
                     speed = map_option Position.speed (position v),
                     timestamp = VehiclePosition.timestamp v,
                     rawTimestamp = VehiclePosition.timestamp v \<rparr>))"

text \<open>\<^verbatim>\<open>array.map(f)\<close> for a callback that may throw: the first exception ends the map.\<close>

fun map_try :: "('a \<Rightarrow> js_error + 'b) \<Rightarrow> 'a list \<Rightarrow> js_error + 'b list" where
  "map_try f [] = Inr []"
| "map_try f (x # xs) =
     (case f x of
        Inl e \<Rightarrow> Inl e
      | Inr y \<Rightarrow> (case map_try f xs of Inl e \<Rightarrow> Inl e | Inr ys \<Rightarrow> Inr (y # ys)))"

definition getStopName :: "string \<Rightarrow> string" where
  "getStopName sid = (case STOPS sid of Some n \<Rightarrow> n | None \<Rightarrow> ''Unknown Stop'')"

text \<open>The \<^verbatim>\<open>switch\<close> over \<open>currentStatus\<close>.\<close>

definition status_of :: "int \<Rightarrow> string" where
  "status_of c =
     (if c = 0 then ''Incoming''
      else if c = 1 then ''Stopped''
      else if c = 2 then ''In Transit''
      else ''Unknown'')"

definition add_readableStatus :: "'f train \<Rightarrow> 'f train_out" where
  "add_readableStatus v =
     train.extend v
       (train_out.fields (status_of (currentStatus v) @ '' at '' @ getStopName (stopId v)))"

text \<open>
  The handler's work on the decoded feed: filter, map, then the \<^verbatim>\<open>forEach\<close> that adds
  \<open>readableStatus\<close>.
\<close>

definition gateway :: "'f FeedMessage \<Rightarrow> js_error + 'f train_out list" where
  "gateway feed =
     (case map_try prettify (filter is_sfMtaTrain (entity feed)) of
        Inl e \<Rightarrow> Inl e
      | Inr prettifiedOutput \<Rightarrow> Inr (map add_readableStatus prettifiedOutput))"

text \<open>
  The handler. \<open>FeedMessage\<close> is the schema's decoder, \<open>None\<close> until
  \<^verbatim>\<open>protobuf.load\<close> has finished; \<open>upstream\<close> is the outcome of \<^verbatim>\<open>axios.get\<close>.
\<close>

type_synonym bytes = "8 word list"

definition vehicles_try ::
  "(bytes \<Rightarrow> js_error + 'f FeedMessage) option \<Rightarrow> js_error + bytes
     \<Rightarrow> js_error + 'f vehicles_body" where
  "vehicles_try FeedMessage upstream =
     (case FeedMessage of
        None \<Rightarrow> Inl (Error ''Protobuf schema not loaded'')
      | Some decode \<Rightarrow>
          (case upstream of
             Inl e \<Rightarrow> Inl e
           | Inr buffer \<Rightarrow>
               (case decode buffer of
                  Inl e \<Rightarrow> Inl e
                | Inr feed \<Rightarrow>
                    (case gateway feed of
                       Inl e \<Rightarrow> Inl e
                     | Inr out \<Rightarrow> Inr \<lparr> vehicles = Some out \<rparr>))))"

definition vehicles_handler ::
  "(bytes \<Rightarrow> js_error + 'f FeedMessage) option \<Rightarrow> js_error + bytes
     \<Rightarrow> 'f vehicles_body response" where
  "vehicles_handler FeedMessage upstream =
     (case vehicles_try FeedMessage upstream of
        Inl e \<Rightarrow> Status500 (FailedWith ''Failed to fetch vehicle positions: '' e)
      | Inr body \<Rightarrow> Status200 body)"

section \<open>The client: fetching and display state\<close>

text \<open>
  What \<^verbatim>\<open>await fetch(url)\<close> gives: a rejection, or a response with its status and what
  \<^verbatim>\<open>response.json()\<close> makes of the body (a parse failure, null, or an object).
  \<^verbatim>\<open>response.ok\<close> holds for the statuses 200 to 299.
\<close>

datatype 'a json = BadJson | JsonNull | JsonObject 'a

datatype 'a fetched = Rejected | Fetched nat "'a json"

definition ok :: "nat \<Rightarrow> bool" where
  "ok status = (200 \<le> status \<and> status \<le> 299)"

text \<open>
  A predictions container of the page: the markup it starts with, the error placeholder
  \<^verbatim>\<open><div class="loading">Error loading predictions</div>\<close>, or the stop-name header
  followed by the prediction items (``No predictions available'' when there is none).
\<close>

datatype region = InitialMarkup | ErrorLoadingPredictions | Rendered "string option" "prediction list"

text \<open>A Mapbox marker as \<open>updateMapMarkers\<close> builds it.\<close>

record 'f marker =
  label :: string
  indicator :: string
  popup :: string
  lngLat :: "'f option \<times> 'f option"

record 'f client_state =
  inbound_predictions :: region
  outbound_predictions :: region
  update_time :: "int option"
  markers :: "'f marker list"
  mapLoaded :: bool
  selectedTrainLines :: "string \<rightharpoonup> bool"

text \<open>
  \<open>updatePredictionsDisplay\<close>: the container is rebuilt from the extracted predictions.
  \<open>createPredictionElement\<close> calls \<^verbatim>\<open>prediction.destination.replace\<close>, which throws when
  the destination is undefined.
\<close>

definition updatePredictionsDisplay :: "(nat \<Rightarrow> int) \<Rightarrow> stop_data \<Rightarrow> js_error + region" where
  "updatePredictionsDisplay clock d =
     (let predictions = extractPredictions clock (Some d)
      in if \<exists>p \<in> set predictions. destination p = None then Inl TypeError
         else Inr (Rendered (stopName d) predictions))"

text \<open>\<open>processApiResponse\<close>, then \<open>updateTimeDisplay\<close> at time \<open>now\<close>.\<close>

definition processApiResponse ::
  "(nat \<Rightarrow> int) \<Rightarrow> (nat \<Rightarrow> int) \<Rightarrow> int \<Rightarrow> predictions_body \<Rightarrow> 'f client_state
     \<Rightarrow> js_error + 'f client_state" where
  "processApiResponse clock_in clock_out now data st =
     (case (case inbound data of
              None \<Rightarrow> Inr st
            | Some d \<Rightarrow> (case updatePredictionsDisplay clock_in d of
                          Inl e \<Rightarrow> Inl e
                        | Inr r \<Rightarrow> Inr (st\<lparr>inbound_predictions := r\<rparr>))) of
        Inl e \<Rightarrow> Inl e
      | Inr st1 \<Rightarrow>
          (case (case outbound data of
                   None \<Rightarrow> Inr st1
                 | Some d \<Rightarrow> (case updatePredictionsDisplay clock_out d of
                               Inl e \<Rightarrow> Inl e
                             | Inr r \<Rightarrow> Inr (st1\<lparr>outbound_predictions := r\<rparr>))) of
             Inl e \<Rightarrow> Inl e
           | Inr st2 \<Rightarrow> Inr (st2\<lparr>update_time := Some now\<rparr>)))"

text \<open>The \<^verbatim>\<open>try\<close> block of \<open>fetchPredictions\<close>, and the function with its \<^verbatim>\<open>catch\<close>.\<close>

definition fetchPredictions_try ::
  "(nat \<Rightarrow> int) \<Rightarrow> (nat \<Rightarrow> int) \<Rightarrow> int \<Rightarrow> predictions_body fetched \<Rightarrow> 'f client_state
     \<Rightarrow> js_error + 'f client_state" where
  "fetchPredictions_try clock_in clock_out now resp st =
     (case resp of
        Rejected \<Rightarrow> Inl TypeError
      | Fetched status body \<Rightarrow>
          if \<not> ok status then Inl (Error ''Network response was not ok'')
          else (case body of
                  BadJson \<Rightarrow> Inl SyntaxError
                | JsonNull \<Rightarrow> Inl TypeError
                | JsonObject data \<Rightarrow> processApiResponse clock_in clock_out now data st))"

definition fetchPredictions ::
  "(nat \<Rightarrow> int) \<Rightarrow> (nat \<Rightarrow> int) \<Rightarrow> int \<Rightarrow> predictions_body fetched \<Rightarrow> 'f client_state
     \<Rightarrow> 'f client_state" where
  "fetchPredictions clock_in clock_out now resp st =
     (case fetchPredictions_try clock_in clock_out now resp st of
        Inl e \<Rightarrow> st\<lparr>inbound_predictions := ErrorLoadingPredictions,
                    outbound_predictions := ErrorLoadingPredictions\<rparr>
      | Inr st' \<Rightarrow> st')"

text \<open>
  \<open>updateMapMarkers\<close>: every marker is removed, and one is built for each vehicle whose
  \<open>trainId\<close> starts with a line that is selected. The calls into Mapbox are taken to
  succeed.
\<close>

definition line_selected :: "(string \<rightharpoonup> bool) \<Rightarrow> 'f train_out \<Rightarrow> bool" where
  "line_selected sel v =
     (case find (\<lambda>ln. prefix ln (trainId v)) trainLines of
        None \<Rightarrow> False
      | Some trainLine \<Rightarrow> sel trainLine = Some True)"

definition marker_of :: "'f train_out \<Rightarrow> 'f marker" where
  "marker_of v =
     \<lparr> label = take 1 (trainId v),
       indicator = (if direction v = 0 then ''in'' else ''out''),
       popup = ''<h3>Train '' @ trainId v @ ''</h3><p>'' @ readableStatus v @ ''</p>'',
       lngLat = (longitude v, latitude v) \<rparr>"

definition updateMapMarkers :: "'f train_out list \<Rightarrow> 'f client_state \<Rightarrow> 'f client_state" where
  "updateMapMarkers vs st =
     st\<lparr>markers := map marker_of (filter (line_selected (selectedTrainLines st)) vs)\<rparr>"

text \<open>The \<^verbatim>\<open>try\<close> block of \<open>fetchVehiclePositions\<close>; its \<^verbatim>\<open>catch\<close> only logs the error.\<close>

definition fetchVehiclePositions_try ::
  "'f vehicles_body fetched \<Rightarrow> 'f client_state \<Rightarrow> js_error + 'f client_state" where
  "fetchVehiclePositions_try resp st =
     (case resp of
        Rejected \<Rightarrow> Inl TypeError
      | Fetched status body \<Rightarrow>
          if \<not> ok status then Inl (Error (''HTTP error! status: '' @ decimal status))
          else (case body of
                  BadJson \<Rightarrow> Inl SyntaxError
                | JsonNull \<Rightarrow> Inl (Error ''Invalid data structure received from server'')
                | JsonObject data \<Rightarrow>
                    (case vehicles data of
                       None \<Rightarrow> Inl (Error ''Invalid data structure received from server'')
                     | Some vs \<Rightarrow>
                         if length vs > 0 \<and> mapLoaded st then Inr (updateMapMarkers vs st)
                         else Inr st)))"

definition fetchVehiclePositions :: "'f vehicles_body fetched \<Rightarrow> 'f client_state \<Rightarrow> 'f client_state" where
  "fetchVehiclePositions resp st =
     (case fetchVehiclePositions_try resp st of Inl e \<Rightarrow> st | Inr st' \<Rightarrow> st')"

text \<open>A fetch has failed when it was rejected, answered with a status that is not ok, or with a body that is not JSON.\<close>

fun fetch_failed :: "'a fetched \<Rightarrow> bool" where
  "fetch_failed Rejected = True"
| "fetch_failed (Fetched status body) = (\<not> ok status \<or> body = BadJson)"

text \<open>
  How the browser receives a handler's response; the error object of a 500 has none of
  the members the script looks for.
\<close>

definition predictions_over_http :: "predictions_body response \<Rightarrow> predictions_body fetched" where
  "predictions_over_http r =
     (case r of
        Status200 body \<Rightarrow> Fetched 200 (JsonObject body)
      | Status500 e \<Rightarrow> Fetched 500 (JsonObject \<lparr> inbound = None, outbound = None \<rparr>))"

definition vehicles_over_http :: "'f vehicles_body response \<Rightarrow> 'f vehicles_body fetched" where
  "vehicles_over_http r =
     (case r of
        Status200 body \<Rightarrow> Fetched 200 (JsonObject body)
      | Status500 e \<Rightarrow> Fetched 500 (JsonObject \<lparr> vehicles = None \<rparr>))"


section \<open>The client: the vehicle timestamp\<close>

text \<open>
  \<open>formatTimestamp\<close> takes nothing, a number, or the \<open>{low, high, unsigned}\<close> object that a
  \<open>Long\<close> becomes in JSON. A \<^verbatim>\<open>Date\<close> holds a time value of at most \<open>8.64 * 10^15\<close>
  milliseconds either side of the epoch; the result is the text \<^verbatim>\<open>N/A\<close>, the text
  \<^verbatim>\<open>Invalid Date\<close>, or the locale's rendering of a time value.

  The arithmetic is JavaScript's, on doubles. The operands here are integers, and the
  product or sum of two doubles is the double nearest to the exact result, a tie going to
  the even significand. An integer below \<open>2^53\<close> in size is a double; a larger one has
  \<open>excess_bits\<close> binary digits too many and is rounded to a multiple of that power of two.
\<close>

fun excess_bits :: "nat \<Rightarrow> nat" where
  "excess_bits n = (if n < 2 ^ 53 then 0 else Suc (excess_bits (n div 2)))"

declare excess_bits.simps [simp del]

definition to_double :: "int \<Rightarrow> int" where
  "to_double x =
     (let q = 2 ^ excess_bits (nat \<bar>x\<bar>); d = x div q; r = x mod q
      in if 2 * r < q then d * q
         else if q < 2 * r then (d + 1) * q
         else if even d then d * q else (d + 1) * q)"

definition js_times :: "int \<Rightarrow> int \<Rightarrow> int" where
  "js_times a b = to_double (a * b)"

definition js_plus :: "int \<Rightarrow> int \<Rightarrow> int" where
  "js_plus a b = to_double (a + b)"

datatype timestamp_arg = NoTimestamp | NumberTimestamp int | LongTimestamp Long

datatype time_text = N_A | Invalid_Date | LocaleTime int

definition Date_text :: "int \<Rightarrow> time_text" where
  "Date_text ms = (if \<bar>ms\<bar> \<le> 8640000000000000 then LocaleTime ms else Invalid_Date)"

text \<open>\<^verbatim>\<open>timestamp.low * 1000 + timestamp.high * 4294967296000\<close>.\<close>

definition milliseconds_of :: "Long \<Rightarrow> int" where
  "milliseconds_of t =
     js_plus (js_times (sint (low t)) 1000) (js_times (sint (high t)) 4294967296000)"

definition formatTimestamp :: "timestamp_arg \<Rightarrow> time_text" where
  "formatTimestamp ts =
     (case ts of
        NoTimestamp \<Rightarrow> N_A
      | NumberTimestamp n \<Rightarrow> if n = 0 then N_A else Date_text n
      | LongTimestamp t \<Rightarrow> Date_text (milliseconds_of t))"

text \<open>
  The integer that a \<open>Long\<close> stands for (long.js): the high word, read by the
  signedness flag, above the unsigned low word.
\<close>

definition Long_value :: "Long \<Rightarrow> int" where
  "Long_value t = (if unsigned t then uint (high t) else sint (high t)) * 2 ^ 32 + uint (low t)"


section \<open>The static dataset and its generator\<close>

text \<open>
  The file \<^verbatim>\<open>train-routes.json\<close> as the script reads it:
  \<open>{routes: [{line, stops: [{id, name, lat, long}]}]}\<close>. In JSON any member may be
  missing, and an entry of an array may be null.
\<close>

record stop =
  id' :: "string option"
  name :: "string option"
  lat :: "string option"
  long :: "string option"

record route =
  line :: "string option"
  stops :: "stop option list option"

record dataset =
  routes :: "route option list option"

text \<open>
  What the generator (the route data fetcher) reads: the points of a line's journey
  patterns, and the stops of the GTFS archive.
\<close>

record location =
  Latitude :: "string option"
  Longitude :: "string option"

record point =
  ScheduledStopPointRef :: "string option"
  Name :: "string option"
  Location :: "location option"
  stop_lat :: "string option"
  stop_lon :: "string option"
  Latitude :: "string option"
  Longitude :: "string option"

record points =
  StopPointInJourneyPattern :: "point list option"
  TimingPointInJourneyPattern :: "point list option"

record pattern =
  PointsInSequence :: "points option"

record gtfs_stop =
  stop_id :: string
  stop_lat :: "string option"
  stop_lon :: "string option"

text \<open>\<open>fetchPatterns\<close>: the object \<open>stopInfo\<close> built for a point that passed the guard.\<close>

definition stopInfo :: "point \<Rightarrow> stop" where
  "stopInfo p =
     (let info = \<lparr> id' = ScheduledStopPointRef p, name = Name p, lat = None, long = None \<rparr>
      in case Location p of
           Some l \<Rightarrow> info\<lparr> lat := location.Latitude l, long := location.Longitude l \<rparr>
         | None \<Rightarrow>
             if truthy_str (point.stop_lat p) \<and> truthy_str (point.stop_lon p)
             then info\<lparr> lat := point.stop_lat p, long := point.stop_lon p \<rparr>
             else if truthy_str (point.Latitude p) \<and> truthy_str (point.Longitude p)
             then info\<lparr> lat := point.Latitude p, long := point.Longitude p \<rparr>
             else info)"

text \<open>\<^verbatim>\<open>[...stopPoints, ...timingPoints]\<close> of a pattern, each list \<^verbatim>\<open>|| []\<close>.\<close>

definition pattern_points :: "pattern \<Rightarrow> point list" where
  "pattern_points pt =
     (case PointsInSequence pt of
        None \<Rightarrow> []
      | Some ps \<Rightarrow>
          (case StopPointInJourneyPattern ps of None \<Rightarrow> [] | Some xs \<Rightarrow> xs)
          @ (case TimingPointInJourneyPattern ps of None \<Rightarrow> [] | Some xs \<Rightarrow> xs))"

text \<open>A \<^verbatim>\<open>Set\<close> of the JSON texts keeps the first of equal entries, in the order of insertion.\<close>

definition first_occurrences :: "'a list \<Rightarrow> 'a list" where
  "first_occurrences xs = rev (remdups (rev xs))"

text \<open>
  The stops \<open>fetchPatterns\<close> returns: a point becomes a stop under the guard
  \<^verbatim>\<open>if (point.ScheduledStopPointRef && point.Name)\<close>.
\<close>

definition fetched_stops :: "pattern list \<Rightarrow> stop list" where
  "fetched_stops journeyPatterns =
     first_occurrences
       (map stopInfo
          (filter (\<lambda>p. truthy_str (ScheduledStopPointRef p) \<and> truthy_str (Name p))
             (concat (map pattern_points journeyPatterns))))"

text \<open>\<open>runTest\<close>: the coordinates of the GTFS stop with the same id, when there is one.\<close>

definition with_gtfs :: "gtfs_stop list \<Rightarrow> stop \<Rightarrow> stop" where
  "with_gtfs gtfsStops s =
     (case find (\<lambda>g. Some (stop_id g) = stop.id' s) gtfsStops of
        Some g \<Rightarrow> s\<lparr> lat := gtfs_stop.stop_lat g, long := gtfs_stop.stop_lon g \<rparr>
      | None \<Rightarrow> s)"

text \<open>
  \<open>runTest\<close>: the member \<open>routes\<close> of the file written. A route comes with the outcome
  of \<open>fetchPatterns\<close> for it, \<open>None\<close> when that returned null, and is then left out.
\<close>

definition routesData :: "gtfs_stop list \<Rightarrow> (string \<times> pattern list option) list \<Rightarrow> dataset" where
  "routesData gtfsStops fetched_routes =
     \<lparr> routes =
         Some (List.map_filter
                 (\<lambda>(Id, data).
                    map_option
                      (\<lambda>journeyPatterns.
                         Some \<lparr> line = Some Id,
                                stops = Some (map (\<lambda>s. Some (with_gtfs gtfsStops s))
                                                (fetched_stops journeyPatterns)) \<rparr>)
                      data)
                 fetched_routes) \<rparr>"


section \<open>The client: the stop cache\<close>

record stop_details =
  name :: string
  line :: "string option"
  lat :: "string option"
  long :: "string option"

type_synonym stop_cache = "string \<rightharpoonup> stop_details"

text \<open>The inner callback: \<^verbatim>\<open>if (stop.id && stop.name) allStops.set(stop.id, {...})\<close>.\<close>

definition set_stop :: "string option \<Rightarrow> stop \<Rightarrow> stop_cache \<Rightarrow> stop_cache" where
  "set_stop route_line s allStops =
     (case stop.id' s of
        None \<Rightarrow> allStops
      | Some i \<Rightarrow>
          (case stop.name s of
             None \<Rightarrow> allStops
           | Some n \<Rightarrow>
               if i \<noteq> [] \<and> n \<noteq> []
               then allStops(i \<mapsto> \<lparr> name = n, line = route_line, lat = stop.lat s, long = stop.long s \<rparr>)
               else allStops))"

text \<open>
  The two \<^verbatim>\<open>forEach\<close> loops. One \<^verbatim>\<open>try\<close> surrounds both: reading a member of a null
  stop or route, or calling \<^verbatim>\<open>forEach\<close> on stops that are missing, throws; the loading
  ends there, and what was stored before stays in the map.
\<close>

fun stops_forEach :: "string option \<Rightarrow> stop option list \<Rightarrow> stop_cache \<Rightarrow> js_error option \<times> stop_cache" where
  "stops_forEach route_line [] allStops = (None, allStops)"
| "stops_forEach route_line (None # ss) allStops = (Some TypeError, allStops)"
| "stops_forEach route_line (Some s # ss) allStops =
     stops_forEach route_line ss (set_stop route_line s allStops)"

fun routes_forEach :: "route option list \<Rightarrow> stop_cache \<Rightarrow> js_error option \<times> stop_cache" where
  "routes_forEach [] allStops = (None, allStops)"
| "routes_forEach (None # rs) allStops = (Some TypeError, allStops)"
| "routes_forEach (Some r # rs) allStops =
     (case stops r of
        None \<Rightarrow> (Some TypeError, allStops)
      | Some ss \<Rightarrow>
          (case stops_forEach (route.line r) ss allStops of
             (Some e, allStops') \<Rightarrow> (Some e, allStops')
           | (None, allStops') \<Rightarrow> routes_forEach rs allStops'))"

text \<open>
  \<open>loadAllStops\<close> does not look at the status. Its \<^verbatim>\<open>catch\<close> logs the error of a failed
  fetch, of a body that is not JSON or of the loops, and the map stays as it is then.
\<close>

definition loadAllStops :: "dataset fetched \<Rightarrow> stop_cache \<Rightarrow> stop_cache" where
  "loadAllStops resp allStops =
     (case resp of
        Rejected \<Rightarrow> allStops
      | Fetched status BadJson \<Rightarrow> allStops
      | Fetched status JsonNull \<Rightarrow> allStops
      | Fetched status (JsonObject data) \<Rightarrow>
          (case routes data of
             None \<Rightarrow> allStops
           | Some rs \<Rightarrow> snd (routes_forEach rs allStops)))"

record validation =
  isValid :: bool
  details :: "stop_details option"

definition validateStop :: "stop_cache \<Rightarrow> string \<Rightarrow> validation" where
  "validateStop allStops sid =
     \<lparr> isValid = (allStops sid \<noteq> None), details = allStops sid \<rparr>"


section \<open>Notions of the specification\<close>

text \<open>
  Notions of the specification, written over the data above, against which the
  functions of the program are compared.
\<close>

text \<open>The expected-arrival timestamp of a visit, when the visit has one.\<close>

definition arrival :: "visit option \<Rightarrow> arrival_time option" where
  "arrival v =
     (case v of
        None \<Rightarrow> None
      | Some vis \<Rightarrow>
          (case MonitoredVehicleJourney vis of
             None \<Rightarrow> None
           | Some j \<Rightarrow> (case MonitoredCall j of None \<Rightarrow> None | Some c \<Rightarrow> ExpectedArrivalTime c)))"

text \<open>The upstream ``vehicle at stop'' flag of a visit, undefined when the path to it is missing.\<close>

definition at_stop_flag :: "visit option \<Rightarrow> jsval" where
  "at_stop_flag v =
     (case v of
        None \<Rightarrow> JUndefined
      | Some vis \<Rightarrow>
          (case MonitoredVehicleJourney vis of
             None \<Rightarrow> JUndefined
           | Some j \<Rightarrow> (case MonitoredCall j of None \<Rightarrow> JUndefined | Some c \<Rightarrow> VehicleAtStop c)))"

text \<open>
  The specification's normalizer, on minutes alone: a visit without a timestamp is
  discarded, the minutes are the rounded difference, a negative value is discarded.
\<close>

definition spec_minutes_at :: "int \<Rightarrow> visit option \<Rightarrow> int list" where
  "spec_minutes_at now v =
     (case arrival v of
        Some (Instant t) \<Rightarrow> (let m = Math_round_quot (t - now) 60000 in if m < 0 then [] else [m])
      | _ \<Rightarrow> [])"

text \<open>A visit whose expected-arrival time, when it has one, is a date; the whole number of minutes.\<close>

definition dated :: "visit option \<Rightarrow> bool" where
  "dated v = (arrival v \<noteq> Some NotADate)"

fun whole :: "jsnum \<Rightarrow> int" where
  "whole (Num n) = n"
| "whole NaN = 0"

definition spec_minutes :: "(nat \<Rightarrow> int) \<Rightarrow> visit option list \<Rightarrow> int list" where
  "spec_minutes clock vs = concat (map (\<lambda>(i, v). spec_minutes_at (clock i) v) (enumerate 0 vs))"

text \<open>The visit list of a stop's data: empty when the path to an array of visits is missing.\<close>

definition visits_of :: "stop_data option \<Rightarrow> visit option list" where
  "visits_of d =
     (case d of
        None \<Rightarrow> []
      | Some sd \<Rightarrow>
          (case ServiceDelivery sd of
             None \<Rightarrow> []
           | Some s \<Rightarrow>
               (case StopMonitoringDelivery s of
                  None \<Rightarrow> []
                | Some smd \<Rightarrow>
                    (case MonitoredStopVisit smd of Some (VisitArray vs) \<Rightarrow> vs | _ \<Rightarrow> []))))"

text \<open>The stops of a dataset in the order of the file, each with the line of its route.\<close>

definition route_stops :: "route option \<Rightarrow> (string option \<times> stop) list" where
  "route_stops r =
     (case r of
        None \<Rightarrow> []
      | Some rt \<Rightarrow>
          (case stops rt of
             None \<Rightarrow> []
           | Some ss \<Rightarrow> List.map_filter (map_option (Pair (route.line rt))) ss))"

definition dataset_stops :: "dataset \<Rightarrow> (string option \<times> stop) list" where
  "dataset_stops d = (case routes d of None \<Rightarrow> [] | Some rs \<Rightarrow> concat (map route_stops rs))"

text \<open>The stop ids the dataset contains.\<close>

definition dataset_stop_ids :: "dataset \<Rightarrow> string option list" where
  "dataset_stop_ids d = map (\<lambda>x. stop.id' (snd x)) (dataset_stops d)"

text \<open>
  A dataset as the generator writes it: the routes are there, each with its stops, and
  every stop has an id and a name that are not empty.
\<close>

definition stop_written :: "stop option \<Rightarrow> bool" where
  "stop_written s =
     (case s of None \<Rightarrow> False | Some st \<Rightarrow> truthy_str (stop.id' st) \<and> truthy_str (stop.name st))"

definition route_written :: "route option \<Rightarrow> bool" where
  "route_written r =
     (case r of
        None \<Rightarrow> False
      | Some rt \<Rightarrow> (case stops rt of None \<Rightarrow> False | Some ss \<Rightarrow> list_all stop_written ss))"

definition written :: "dataset \<Rightarrow> bool" where
  "written d = (case routes d of None \<Rightarrow> False | Some rs \<Rightarrow> list_all route_written rs)"

text \<open>
  The stop that a lookup of an id is to return: the record of the stop with that id, of
  the last one in the file when lines share it (a station is listed under each of its
  lines).
\<close>

definition record_of :: "string option \<times> stop \<Rightarrow> stop_details option" where
  "record_of x =
     map_option
       (\<lambda>n. \<lparr> name = n, line = fst x, lat = stop.lat (snd x), long = stop.long (snd x) \<rparr>)
       (stop.name (snd x))"

definition stop_with_id :: "dataset \<Rightarrow> string \<Rightarrow> stop_details option" where
  "stop_with_id d i =
     (case filter (\<lambda>x. stop.id' (snd x) = Some i) (dataset_stops d) of
        [] \<Rightarrow> None
      | x # xs \<Rightarrow> record_of (last (x # xs)))"

text \<open>An output record of the gateway describes a feed entity.\<close>

definition describes :: "'f FeedEntity \<Rightarrow> 'f train_out \<Rightarrow> bool" where
  "describes e out \<longleftrightarrow>
     (\<exists>v t. FeedEntity.vehicle e = Some v \<and> trip v = Some t
        \<and> routeId out = TripDescriptor.routeId t
        \<and> trainId out = TripDescriptor.routeId t @ vehicle_id_text (VehiclePosition.vehicle v)
        \<and> currentStatus out = VehiclePosition.currentStatus v
        \<and> readableStatus out
            = status_of (VehiclePosition.currentStatus v) @ '' at '' @ getStopName (VehiclePosition.stopId v)
        \<and> timestamp out = VehiclePosition.timestamp v
        \<and> rawTimestamp out = VehiclePosition.timestamp v)"


section \<open>Sample data\<close>

definition visit_at :: "arrival_time option \<Rightarrow> string option \<Rightarrow> jsval \<Rightarrow> visit option" where
  "visit_at t dest flag =
     Some \<lparr> MonitoredVehicleJourney =
              Some \<lparr> MonitoredCall = Some \<lparr> ExpectedArrivalTime = t, DestinationDisplay = dest,
                                             VehicleAtStop = flag \<rparr>,
                     DestinationName = None \<rparr> \<rparr>"

definition sample_clock :: "nat \<Rightarrow> int" where
  "sample_clock i = 1000000 + int i"

text \<open>Arrivals 7 minutes and 2 minutes ahead, a null entry, a visit without a time, and one 100 seconds past.\<close>

definition sample_visits :: "visit option list" where
  "sample_visits =
     [visit_at (Some (Instant 1420000)) (Some ''Embarcadero'') (JStr ''false''),
      None,
      visit_at None (Some ''Embarcadero'') (JStr ''true''),
      visit_at (Some (Instant 1120000)) (Some ''Balboa Park'') (JStr ''true''),
      visit_at (Some (Instant 900000)) (Some ''Balboa Park'') JNull]"

text \<open>Arrivals 5 minutes and 2 minutes ahead, and between them a visit whose time is \<^verbatim>\<open>'soon'\<close>.\<close>

definition undated_visits :: "visit option list" where
  "undated_visits =
     [visit_at (Some (Instant 1300000)) (Some ''Embarcadero'') (JStr ''false''),
      visit_at (Some NotADate) (Some ''Balboa Park'') (JStr ''false''),
      visit_at (Some (Instant 1120000)) (Some ''Embarcadero'') (JStr ''false'')]"

text \<open>Two lists in which every visit is malformed: one by its time, one by its missing destination.\<close>

definition unparseable_visits :: "visit option list" where
  "unparseable_visits = [visit_at (Some NotADate) (Some ''Embarcadero'') JUndefined]"

definition unlabelled_visits :: "visit option list" where
  "unlabelled_visits = [visit_at (Some (Instant 1120000)) None JUndefined]"

text \<open>Four visits two minutes ahead that differ in the flag only.\<close>

definition flagged_visits :: "visit option list" where
  "flagged_visits =
     [visit_at (Some (Instant 1120000)) (Some ''A'') (JStr ''true''),
      visit_at (Some (Instant 1120000)) (Some ''B'') (JBool True),
      visit_at (Some (Instant 1120000)) (Some ''C'') (JStr ''1''),
      visit_at (Some (Instant 1120000)) (Some ''D'') JUndefined]"

definition sample_entity :: "string \<Rightarrow> string \<Rightarrow> int \<Rightarrow> string \<Rightarrow> string FeedEntity" where
  "sample_entity r vid st sid =
     \<lparr> FeedEntity.vehicle =
         Some \<lparr> trip = Some \<lparr> TripDescriptor.routeId = r, directionId = 0 \<rparr>,
                VehiclePosition.vehicle = Some \<lparr> VehicleDescriptor.id' = vid \<rparr>,
                position = None,
                VehiclePosition.currentStopSequence = 3,
                VehiclePosition.stopId = sid,
                VehiclePosition.currentStatus = st,
                VehiclePosition.timestamp = \<lparr> low = 1706600000, high = 0, unsigned = True \<rparr> \<rparr> \<rparr>"

definition sample_feed :: "string FeedMessage" where
  "sample_feed =
     \<lparr> entity = [sample_entity ''K'' ''2051'' 1 ''17109'',
                  sample_entity ''X'' ''8820'' 2 ''13911'',
                  \<lparr> FeedEntity.vehicle = None \<rparr>,
                  sample_entity ''N'' ''2033'' 7 ''16503''] \<rparr>"

definition sample_marker :: "string marker" where
  "sample_marker =
     \<lparr> label = ''K'', indicator = ''in'', popup = ''<h3>Train K2051</h3><p>Stopped at Unknown Stop</p>'',
       lngLat = (Some ''-122.4656'', Some ''37.7409'') \<rparr>"

text \<open>A page that shows predictions and one marker from an earlier poll.\<close>

definition stale_state :: "string client_state" where
  "stale_state =
     \<lparr> inbound_predictions =
         Rendered (Some ''Inbound to Downtown'')
           [\<lparr> minutes = Num 2, destination = Some ''Embarcadero'', atStop = False \<rparr>],
       outbound_predictions = Rendered (Some ''Outbound to Ocean Beach'') [],
       update_time = Some 1000000,
       markers = [sample_marker],
       mapLoaded = True,
       selectedTrainLines = [''K'' \<mapsto> True] \<rparr>"

definition failing_inbound :: "string \<Rightarrow> js_error + upstream_data" where
  "failing_inbound sid =
     (if sid = ''15779'' then Inl (Error ''Request failed with status code 500'')
      else Inr (Data (Some \<lparr> StopMonitoringDelivery = None \<rparr>)))"

definition both_answer :: "string \<Rightarrow> js_error + upstream_data" where
  "both_answer sid = Inr (Data (Some \<lparr> StopMonitoringDelivery = None \<rparr>))"

text \<open>
  West Portal under two lines and a stop of the M line, as the points the generator
  reads; one point has no name, and the patterns of the L line could not be fetched.
\<close>

definition sample_point :: "string \<Rightarrow> string option \<Rightarrow> point" where
  "sample_point ref nm =
     \<lparr> ScheduledStopPointRef = Some ref, Name = nm, Location = None,
       point.stop_lat = None, point.stop_lon = None,
       point.Latitude = None, point.Longitude = None \<rparr>"

definition sample_pattern :: "point list \<Rightarrow> pattern" where
  "sample_pattern ps =
     \<lparr> PointsInSequence =
         Some \<lparr> StopPointInJourneyPattern = Some ps, TimingPointInJourneyPattern = None \<rparr> \<rparr>"

definition sample_gtfs :: "gtfs_stop list" where
  "sample_gtfs =
     [\<lparr> stop_id = ''15779'', gtfs_stop.stop_lat = Some ''37.7409'',
        gtfs_stop.stop_lon = Some ''-122.4656'' \<rparr>]"

definition sample_routes :: "(string \<times> pattern list option) list" where
  "sample_routes =
     [(''K'', Some [sample_pattern [sample_point ''15779'' (Some ''West Portal Station''),
                                      sample_point ''15779'' (Some ''West Portal Station''),
                                      sample_point ''15780'' None]]),
      (''L'', None),
      (''M'', Some [sample_pattern [sample_point ''15779'' (Some ''West Portal Station''),
                                      sample_point ''17778'' (Some ''Stonestown'')]])]"

definition sample_dataset :: dataset where
  "sample_dataset = routesData sample_gtfs sample_routes"

text \<open>The timestamp 2147483648, that is 2038-01-19T03:14:08Z, as a \<open>Long\<close>.\<close>

definition timestamp_2038 :: Long where
  "timestamp_2038 = \<lparr> low = 0x80000000, high = 0, unsigned = True \<rparr>"

text \<open>A timestamp of the feed's present, 1706600000 (2024-01-30T07:33:20Z).\<close>

definition timestamp_2024 :: Long where
  "timestamp_2024 = \<lparr> low = 1706600000, high = 0, unsigned = True \<rparr>"

text \<open>A large value: \<open>4194304 * 2^32 + 1\<close> seconds.\<close>

definition far_timestamp :: Long where
  "far_timestamp = \<lparr> low = 1, high = 0x400000, unsigned = True \<rparr>"

section \<open>Predictions: extraction\<close>

lemma Math_round_quot_nearest:
  assumes "0 < b"
  shows "2 * a - b < 2 * b * Math_round_quot a b \<and> 2 * b * Math_round_quot a b \<le> 2 * a + b"
proof -
  let ?n = "2 * a + b" and ?d = "2 * b"
  have d: "0 < ?d" using assms by simp
  have eq: "?d * (?n div ?d) + ?n mod ?d = ?n" by simp
  have m1: "0 \<le> ?n mod ?d" using d by (rule pos_mod_sign)
  have m2: "?n mod ?d < ?d" using d by (rule pos_mod_bound)
  from eq m1 m2 show ?thesis unfolding Math_round_quot_def by linarith
qed

lemma mset_insert_sorted: "mset (insert_sorted c x ys) = add_mset x (mset ys)"
  by (induction ys) simp_all

lemma mset_Array_sort: "mset (Array_sort c xs) = mset xs"
  by (induction xs) (simp_all add: Array_sort_def mset_insert_sorted)

lemma set_Array_sort: "set (Array_sort c xs) = set xs"
  using mset_Array_sort[of c xs] by (metis set_mset_mset)

lemma set_map_filter_id: "set (List.map_filter (\<lambda>p. p) xs) = {p. Some p \<in> set xs}"
  by (induction xs) (auto simp: List.map_filter_simps split: option.splits)

lemma in_extractPredictions:
  assumes "p \<in> set (extractPredictions clock d)"
  shows "\<exists>i < length (visits_of d). visit_callback (clock i) (visits_of d ! i) = Some p"
proof -
  from assms obtain vs where vs: "visits_of d = vs"
      and p: "Some p \<in> set (mapped_visits clock vs)"
    by (auto simp: extractPredictions_def extract_try_def visits_of_def set_map_filter_id
        set_Array_sort split: option.splits visits_value.splits sum.splits)
  from p obtain i where "i < length vs" "visit_callback (clock i) (vs ! i) = Some p"
    by (auto simp: mapped_visits_def in_set_enumerate_eq)
  with vs show ?thesis by auto
qed

lemma extractPredictions_visits:
  "extractPredictions clock (Some (stop_with_visits nm vs))
     = Array_sort by_minutes (List.map_filter (\<lambda>p. p) (mapped_visits clock vs))"
  by (simp add: extractPredictions_def extract_try_def stop_with_visits_def)

lemmas eval_extract =
  extractPredictions_def extract_try_def stop_with_visits_def mapped_visits_def
  visit_callback_def visit_try_def visit_at_def minutes_between_def Math_round_quot_def js_or_def
  Array_sort_def by_minutes_def List.map_filter_simps enumerate_eq_zip Let_def upt_rec

subsection \<open>Visits whose times are dates\<close>

lemma insert_sorted_whole:
  assumes "\<exists>n. minutes x = Num n" and "\<forall>y \<in> set ys. \<exists>n. minutes y = Num n"
  shows "insert_sorted by_minutes x ys = insort_key (\<lambda>p. whole (minutes p)) x ys"
  using assms by (induction ys) (auto simp: by_minutes_def)

lemma Array_sort_whole:
  assumes "\<forall>x \<in> set xs. \<exists>n. minutes x = Num n"
  shows "Array_sort by_minutes xs = sort_key (\<lambda>p. whole (minutes p)) xs"
  using assms
proof (induction xs)
  case Nil
  then show ?case by (simp add: Array_sort_def)
next
  case (Cons x xs)
  then have ih: "Array_sort by_minutes xs = sort_key (\<lambda>p. whole (minutes p)) xs" by simp
  have "insert_sorted by_minutes x (sort_key (\<lambda>p. whole (minutes p)) xs)
          = insort_key (\<lambda>p. whole (minutes p)) x (sort_key (\<lambda>p. whole (minutes p)) xs)"
    using Cons.prems by (intro insert_sorted_whole) simp_all
  with ih show ?case by (simp add: Array_sort_def)
qed

lemma visit_callback_dated:
  assumes "dated v" and "visit_callback now v = Some p"
  shows "\<exists>n. minutes p = Num n \<and> 0 \<le> n"
  using assms
  by (auto simp: dated_def arrival_def visit_callback_def visit_try_def minutes_between_def Let_def
      split: option.splits if_splits arrival_time.splits)

lemma kept_dated:
  assumes "list_all dated vs"
      and "p \<in> set (List.map_filter (\<lambda>p. p) (mapped_visits clock vs))"
  shows "\<exists>n. minutes p = Num n \<and> 0 \<le> n"
proof -
  from assms(2) obtain i where i: "i < length vs" "visit_callback (clock i) (vs ! i) = Some p"
    by (auto simp: set_map_filter_id mapped_visits_def in_set_enumerate_eq)
  from assms(1) i(1) have "dated (vs ! i)" by (simp add: list_all_length)
  then show ?thesis using i(2) by (rule visit_callback_dated)
qed

lemma visit_callback_minutes:
  assumes "dated v"
  shows "map (\<lambda>p. whole (minutes p)) (case visit_callback now v of None \<Rightarrow> [] | Some p \<Rightarrow> [p])
           = spec_minutes_at now v"
  using assms
  by (auto simp: dated_def visit_callback_def visit_try_def spec_minutes_at_def arrival_def
      minutes_between_def Let_def split: option.splits arrival_time.splits)

lemma kept_minutes:
  assumes "list_all dated vs"
  shows "map (\<lambda>p. whole (minutes p)) (List.map_filter (\<lambda>p. p) (mapped_visits clock vs))
           = spec_minutes clock vs"
proof -
  have "list_all (\<lambda>(i, v). dated v) ivs \<Longrightarrow>
        map (\<lambda>p. whole (minutes p))
            (List.map_filter (\<lambda>p. p) (map (\<lambda>(i, v). visit_callback (clock i) v) ivs))
          = concat (map (\<lambda>(i, v). spec_minutes_at (clock i) v) ivs)" for ivs
    by (induction ivs)
      (auto simp: List.map_filter_simps visit_callback_minutes[symmetric] split: option.splits)
  moreover have "list_all (\<lambda>(i, v). dated v) (enumerate 0 vs)"
    using assms by (auto simp: list_all_iff in_set_enumerate_eq)
  ultimately show ?thesis by (simp add: mapped_visits_def spec_minutes_def)
qed

lemma map_sort_key: "map f (sort_key f xs) = sort (map f xs)"
proof (induction xs)
  case Nil
  then show ?case by simp
next
  case (Cons x xs)
  have ins: "map f (insort_key f x ys) = insort (f x) (map f ys)" for ys
    by (induction ys) simp_all
  show ?case using Cons by (simp add: ins)
qed

text \<open>
  On a list whose times are dates the extraction does what the specification says, on
  the predictions themselves: the output is the stable arrangement, ascending in the
  minutes, of the predictions the callback keeps; its minutes are whole, not negative,
  and are the sorted minutes of the specification.
\<close>

lemma extractPredictions_dated:
  assumes "list_all dated vs"
  shows "extractPredictions clock (Some (stop_with_visits nm vs))
           = sort_key (\<lambda>p. whole (minutes p))
               (List.map_filter (\<lambda>p. p) (mapped_visits clock vs))"
    and "map (\<lambda>p. whole (minutes p)) (extractPredictions clock (Some (stop_with_visits nm vs)))
           = sort (spec_minutes clock vs)"
    and "\<forall>p \<in> set (extractPredictions clock (Some (stop_with_visits nm vs))).
           \<exists>n. minutes p = Num n \<and> 0 \<le> n"
proof -
  let ?kept = "List.map_filter (\<lambda>p. p) (mapped_visits clock vs)"
  have k: "\<forall>p \<in> set ?kept. \<exists>n. minutes p = Num n \<and> 0 \<le> n"
    using kept_dated[OF assms] by blast
  then have "\<forall>p \<in> set ?kept. \<exists>n. minutes p = Num n" by blast
  then have a: "Array_sort by_minutes ?kept = sort_key (\<lambda>p. whole (minutes p)) ?kept"
    by (rule Array_sort_whole)
  then show e: "extractPredictions clock (Some (stop_with_visits nm vs))
           = sort_key (\<lambda>p. whole (minutes p)) ?kept"
    by (simp add: extractPredictions_visits)
  show "map (\<lambda>p. whole (minutes p)) (extractPredictions clock (Some (stop_with_visits nm vs)))
           = sort (spec_minutes clock vs)"
    by (simp only: e map_sort_key kept_minutes[OF assms])
  show "\<forall>p \<in> set (extractPredictions clock (Some (stop_with_visits nm vs))).
           \<exists>n. minutes p = Num n \<and> 0 \<le> n"
    using k by (simp add: e)
qed

text \<open>No prediction of any output has minutes below zero.\<close>

lemma extractPredictions_not_below_zero:
  assumes "p \<in> set (extractPredictions clock d)"
  shows "\<not> below_zero (minutes p)"
proof -
  from in_extractPredictions[OF assms] obtain i
    where "visit_callback (clock i) (visits_of d ! i) = Some p" by blast
  then show ?thesis
    by (auto simp: visit_callback_def visit_try_def Let_def split: option.splits if_splits)
qed

subsection \<open>A time that is not a date\<close>

text \<open>
  C1 at a list that holds a visit whose expected-arrival time is not a date, between
  arrivals 5 and 2 minutes ahead. The claim has the visit without a timestamp discarded
  and the rest returned ascending, \<open>[2, 5]\<close>. The script keeps the visit with minutes
  \<^verbatim>\<open>NaN\<close>, since \<^verbatim>\<open>NaN < 0\<close> is false; the comparator answers \<^verbatim>\<open>NaN\<close> against it, and the
  output stays in the order of the input, \<open>[5, NaN, 2]\<close>.
\<close>

theorem undated_visit_breaks_order:
  "map minutes (extractPredictions sample_clock (Some (stop_with_visits None undated_visits)))
     = [Num 5, NaN, Num 2]
   \<and> sort (spec_minutes sample_clock undated_visits) = [2, 5]
   \<and> by_minutes \<lparr> minutes = Num 5, destination = None, atStop = False \<rparr>
                 \<lparr> minutes = NaN, destination = None, atStop = False \<rparr> = NaN"
  by (simp add: sample_clock_def undated_visits_def eval_extract spec_minutes_def
      spec_minutes_at_def arrival_def)

lemma visit_callback_malformed: "arrival v = None \<Longrightarrow> visit_callback now v = None"
  by (auto simp: visit_callback_def visit_try_def arrival_def split: option.splits)

lemma map_filter_all_None: "\<forall>x \<in> set xs. x = None \<Longrightarrow> List.map_filter (\<lambda>p. p) xs = []"
  by (induction xs) (auto simp: List.map_filter_simps)

lemma mapped_visits_malformed:
  assumes "\<forall>v \<in> set vs. arrival v = None"
  shows "List.map_filter (\<lambda>p. p) (mapped_visits clock vs) = []"
proof (rule map_filter_all_None)
  show "\<forall>x \<in> set (mapped_visits clock vs). x = None"
    using assms by (auto simp: mapped_visits_def in_set_enumerate_eq visit_callback_malformed)
qed

text \<open>
  The extraction never throws, and a list whose visits are all null or without journey,
  call or expected-arrival time gives the empty array.
\<close>

lemma visits_without_time_yield_empty:
  assumes "\<forall>v \<in> set (visits_of d). arrival v = None"
  shows "extractPredictions clock d = []"
proof (cases "extract_try clock d")
  case (Inl e)
  then show ?thesis by (simp add: extractPredictions_def)
next
  case (Inr ps)
  then show ?thesis using assms
    by (auto simp: extractPredictions_def extract_try_def visits_of_def mapped_visits_malformed
        Array_sort_def split: option.splits visits_value.splits)
qed

text \<open>
  C8 at two lists in which every visit is malformed. A visit whose expected-arrival
  time is not a date is kept, with minutes \<^verbatim>\<open>NaN\<close>; a visit that has a time and neither
  \<open>DestinationDisplay\<close> nor \<open>DestinationName\<close> is kept, with its destination undefined.
  In both the claim has the empty array returned; the script returns one prediction
  (and it does not throw).
\<close>

theorem malformed_visits_kept:
  "extractPredictions sample_clock (Some (stop_with_visits None unparseable_visits))
     = [\<lparr> minutes = NaN, destination = Some ''Embarcadero'', atStop = False \<rparr>]
   \<and> extract_try sample_clock (Some (stop_with_visits None unparseable_visits))
       = Inr [\<lparr> minutes = NaN, destination = Some ''Embarcadero'', atStop = False \<rparr>]
   \<and> extractPredictions sample_clock (Some (stop_with_visits None unlabelled_visits))
       = [\<lparr> minutes = Num 2, destination = None, atStop = False \<rparr>]"
  by (simp add: sample_clock_def unparseable_visits_def unlabelled_visits_def eval_extract)

subsection \<open>The flag\<close>

lemma visit_callback_atStop:
  "visit_callback now v = Some p \<Longrightarrow> atStop p = (at_stop_flag v = JStr ''true'')"
  by (auto simp: visit_callback_def visit_try_def at_stop_flag_def Let_def
      split: option.splits if_splits)

text \<open>
  C9. A prediction made from a visit has \<open>atStop\<close> true exactly when the visit's
  \<open>VehicleAtStop\<close> is the string \<^verbatim>\<open>'true'\<close>; every extracted prediction is made from a
  visit of the list, so the JSON boolean, the string \<^verbatim>\<open>'1'\<close> or an absent flag give false.
\<close>

theorem atStop_iff_string_true:
  "(visit_callback now v = Some p \<longrightarrow> atStop p = (at_stop_flag v = JStr ''true''))
   \<and> (q \<in> set (extractPredictions clock d) \<longrightarrow>
        (\<exists>i < length (visits_of d). visit_callback (clock i) (visits_of d ! i) = Some q
            \<and> atStop q = (at_stop_flag (visits_of d ! i) = JStr ''true'')))"
  using visit_callback_atStop in_extractPredictions by blast

theorem atStop_iff_string_true_witness:
  "map (\<lambda>p. (destination p, atStop p))
       (extractPredictions sample_clock (Some (stop_with_visits None flagged_visits)))
     = [(Some ''A'', True), (Some ''B'', False), (Some ''C'', False), (Some ''D'', False)]
   \<and> visit_callback 1000000 (flagged_visits ! 1)
       = Some \<lparr> minutes = Num 2, destination = Some ''B'', atStop = False \<rparr>
   \<and> at_stop_flag (flagged_visits ! 1) = JBool True
   \<and> \<lparr> minutes = Num 2, destination = Some ''B'', atStop = False \<rparr>
       \<in> set (extractPredictions sample_clock (Some (stop_with_visits None flagged_visits)))"
  using atStop_iff_string_true
          [of 1000000 "flagged_visits ! 1" "\<lparr> minutes = Num 2, destination = Some ''B'', atStop = False \<rparr>"
              "\<lparr> minutes = Num 2, destination = Some ''B'', atStop = False \<rparr>" sample_clock
              "Some (stop_with_visits None flagged_visits)"]
  by (simp add: sample_clock_def flagged_visits_def at_stop_flag_def eval_extract)


section \<open>The predictions endpoint and its client\<close>

lemma predictions_handler_fails:
  assumes "(\<exists>e. getStopPredictions (js_or_default qi ''17109'') = Inl e)
           \<or> (\<exists>e. getStopPredictions (js_or_default qo ''16503'') = Inl e)"
  shows "predictions_handler key qi qo getStopPredictions
           = Status500 (Failed ''Failed to fetch predictions'')"
  using assms
  by (auto simp: predictions_handler_def predictions_try_def Promise_all2_def Let_def
      split: sum.splits)

lemma predictions_handler_success:
  assumes "predictions_handler key qi qo getStopPredictions = Status200 body"
  shows "inbound body \<noteq> None \<and> outbound body \<noteq> None"
  using assms
  by (auto simp: predictions_handler_def predictions_try_def Promise_all2_def Let_def
      split: sum.splits if_splits)

lemma fetchPredictions_failed:
  assumes "fetch_failed resp"
  shows "fetchPredictions ci co now resp st
           = st\<lparr>inbound_predictions := ErrorLoadingPredictions,
                outbound_predictions := ErrorLoadingPredictions\<rparr>"
  using assms by (cases resp) (auto simp: fetchPredictions_def fetchPredictions_try_def)

text \<open>
  C2. When the upstream call for the inbound or for the outbound stop fails, the
  predictions endpoint answers with the error \<^verbatim>\<open>Failed to fetch predictions\<close> and no
  data of the other direction, and the page then shows the error placeholder in both
  containers. A successful answer holds both directions.
\<close>

theorem predictions_all_or_nothing:
  "(((\<exists>e. getStopPredictions (js_or_default qi ''17109'') = Inl e)
       \<or> (\<exists>e. getStopPredictions (js_or_default qo ''16503'') = Inl e)) \<longrightarrow>
      predictions_handler key qi qo getStopPredictions
        = Status500 (Failed ''Failed to fetch predictions'')
      \<and> fetchPredictions ci co now
           (predictions_over_http (predictions_handler key qi qo getStopPredictions)) st
          = st\<lparr>inbound_predictions := ErrorLoadingPredictions,
               outbound_predictions := ErrorLoadingPredictions\<rparr>)
   \<and> (predictions_handler key qi qo getStopPredictions = Status200 body \<longrightarrow>
        inbound body \<noteq> None \<and> outbound body \<noteq> None)"
proof (intro conjI impI)
  assume f: "(\<exists>e. getStopPredictions (js_or_default qi ''17109'') = Inl e)
       \<or> (\<exists>e. getStopPredictions (js_or_default qo ''16503'') = Inl e)"
  then show h: "predictions_handler key qi qo getStopPredictions
        = Status500 (Failed ''Failed to fetch predictions'')"
    by (rule predictions_handler_fails)
  have "fetch_failed (predictions_over_http (predictions_handler key qi qo getStopPredictions))"
    by (simp add: h predictions_over_http_def ok_def)
  then show "fetchPredictions ci co now
           (predictions_over_http (predictions_handler key qi qo getStopPredictions)) st
          = st\<lparr>inbound_predictions := ErrorLoadingPredictions,
               outbound_predictions := ErrorLoadingPredictions\<rparr>"
    by (rule fetchPredictions_failed)
next
  assume "predictions_handler key qi qo getStopPredictions = Status200 body"
  then show "inbound body \<noteq> None" and "outbound body \<noteq> None"
    using predictions_handler_success by blast+
qed

theorem predictions_all_or_nothing_witness:
  "failing_inbound (js_or_default (Some ''15779'') ''17109'')
     = Inl (Error ''Request failed with status code 500'')
   \<and> failing_inbound (js_or_default (Some ''15780'') ''16503'')
       = Inr (Data (Some \<lparr> StopMonitoringDelivery = None \<rparr>))
   \<and> predictions_handler (Some ''key'') (Some ''15779'') (Some ''15780'') failing_inbound
       = Status500 (Failed ''Failed to fetch predictions'')
   \<and> inbound_predictions
        (fetchPredictions sample_clock sample_clock 1000000
           (predictions_over_http
              (predictions_handler (Some ''key'') (Some ''15779'') (Some ''15780'') failing_inbound))
           stale_state) = ErrorLoadingPredictions
   \<and> outbound_predictions
        (fetchPredictions sample_clock sample_clock 1000000
           (predictions_over_http
              (predictions_handler (Some ''key'') (Some ''15779'') (Some ''15780'') failing_inbound))
           stale_state) = ErrorLoadingPredictions
   \<and> predictions_handler (Some ''key'') None None both_answer
       = Status200 \<lparr> inbound = Some \<lparr> stopName = Some ''Inbound to Downtown'',
                                      ServiceDelivery = Some \<lparr> StopMonitoringDelivery = None \<rparr> \<rparr>,
                     outbound = Some \<lparr> stopName = Some ''Outbound to Ocean Beach'',
                                       ServiceDelivery = Some \<lparr> StopMonitoringDelivery = None \<rparr> \<rparr> \<rparr>"
  using predictions_all_or_nothing
          [of failing_inbound "Some ''15779''" "Some ''15780''" "Some ''key''"
              sample_clock sample_clock 1000000 stale_state
              "\<lparr> inbound = None, outbound = None \<rparr>"]
        predictions_all_or_nothing
          [of both_answer None None "Some ''key''" sample_clock sample_clock 1000000 stale_state
              "\<lparr> inbound = Some \<lparr> stopName = Some ''Inbound to Downtown'',
                                      ServiceDelivery = Some \<lparr> StopMonitoringDelivery = None \<rparr> \<rparr>,
                     outbound = Some \<lparr> stopName = Some ''Outbound to Ocean Beach'',
                                       ServiceDelivery = Some \<lparr> StopMonitoringDelivery = None \<rparr> \<rparr> \<rparr>"]
  by (simp add: failing_inbound_def both_answer_def js_or_default_def predictions_handler_def
      predictions_try_def Promise_all2_def read_ServiceDelivery_def stop_label_def STOPS_def
      stale_state_def)


section \<open>The vehicle feed gateway\<close>

lemma is_sfMtaTrain_iff:
  "is_sfMtaTrain e \<longleftrightarrow>
     (\<exists>v t. FeedEntity.vehicle e = Some v \<and> trip v = Some t
        \<and> TripDescriptor.routeId t \<in> {''J'', ''K'', ''L'', ''M'', ''N'', ''T''})"
  by (auto simp: is_sfMtaTrain_def trainLines_def split: option.splits)

lemma prettify_train:
  "is_sfMtaTrain e \<Longrightarrow> \<exists>p. prettify e = Inr p \<and> describes e (add_readableStatus p)"
  by (auto simp: is_sfMtaTrain_def prettify_def describes_def add_readableStatus_def
      train.defs train_out.defs split: option.splits)

lemma map_try_all:
  assumes "\<forall>x \<in> set xs. \<exists>y. f x = Inr y \<and> R x (g y)"
  shows "\<exists>ys. map_try f xs = Inr ys \<and> list_all2 R xs (map g ys)"
  using assms by (induction xs) auto

lemma gateway_describes:
  "\<exists>out. gateway feed = Inr out \<and> list_all2 describes (filter is_sfMtaTrain (entity feed)) out"
proof -
  have "\<forall>e \<in> set (filter is_sfMtaTrain (entity feed)).
          \<exists>p. prettify e = Inr p \<and> describes e (add_readableStatus p)"
    by (simp add: prettify_train)
  from map_try_all[where f = prettify and g = add_readableStatus and R = describes, OF this]
  show ?thesis by (auto simp: gateway_def)
qed

text \<open>
  C3. On every decoded feed the gateway succeeds, and its output lists, in order, one
  record for each entity whose vehicle's trip has a route id among J, K, L, M, N, T and
  for no other. In a record \<open>trainId\<close> is the route id followed by the vehicle id (by
  the text \<^verbatim>\<open>undefined\<close> when the feed names no vehicle), and \<open>readableStatus\<close> is the
  label of the status code, \<^verbatim>\<open>Incoming\<close> for 0, \<^verbatim>\<open>Stopped\<close> for 1, \<^verbatim>\<open>In Transit\<close> for 2
  and \<^verbatim>\<open>Unknown\<close> otherwise, followed by \<^verbatim>\<open> at \<close> and the stop's name.
\<close>

theorem gateway_filters_and_labels:
  "(\<exists>out. gateway feed = Inr out
      \<and> list_all2 describes
           (filter (\<lambda>e. \<exists>v t. FeedEntity.vehicle e = Some v \<and> trip v = Some t
                        \<and> TripDescriptor.routeId t \<in> {''J'', ''K'', ''L'', ''M'', ''N'', ''T''})
              (entity feed)) out)
   \<and> (\<forall>d. vehicle_id_text (Some d) = VehicleDescriptor.id' d)
   \<and> status_of 0 = ''Incoming'' \<and> status_of 1 = ''Stopped'' \<and> status_of 2 = ''In Transit''
   \<and> (\<forall>c. c \<notin> {0, 1, 2} \<longrightarrow> status_of c = ''Unknown'')"
proof -
  have "filter (\<lambda>e. \<exists>v t. FeedEntity.vehicle e = Some v \<and> trip v = Some t
                        \<and> TripDescriptor.routeId t \<in> {''J'', ''K'', ''L'', ''M'', ''N'', ''T''})
              (entity feed) = filter is_sfMtaTrain (entity feed)"
    by (rule filter_cong) (simp_all add: is_sfMtaTrain_iff)
  then show ?thesis
    using gateway_describes[of feed] by (simp add: status_of_def vehicle_id_text_def)
qed

theorem gateway_filters_and_labels_witness:
  "map (\<lambda>out. (trainId out, routeId out, readableStatus out)) (projr (gateway sample_feed))
     = [(''K2051'', ''K'', ''Stopped at Inbound to Downtown''),
        (''N2033'', ''N'', ''Unknown at Outbound to Ocean Beach'')]
   \<and> \<not> isl (gateway sample_feed)
   \<and> status_of 7 = ''Unknown''"
  using gateway_filters_and_labels[of sample_feed]
  by (auto simp: sample_feed_def sample_entity_def gateway_def is_sfMtaTrain_def trainLines_def
      prettify_def vehicle_id_text_def add_readableStatus_def status_of_def getStopName_def
      STOPS_def train.defs train_out.defs)

text \<open>
  C7. While the schema is not loaded the vehicles endpoint answers every request with
  status 500 and the error \<^verbatim>\<open>Failed to fetch vehicle positions: Protobuf schema not loaded\<close>,
  whatever the upstream would have sent: the handler returns, and its answer is not a
  vehicle list. The browser sees a failed fetch.
\<close>

theorem schema_not_loaded:
  "vehicles_handler None upstream
     = Status500 (FailedWith ''Failed to fetch vehicle positions: ''
                    (Error ''Protobuf schema not loaded''))
   \<and> vehicles_try None upstream = Inl (Error ''Protobuf schema not loaded'')
   \<and> fetch_failed (vehicles_over_http (vehicles_handler None upstream))"
  by (simp add: vehicles_handler_def vehicles_try_def vehicles_over_http_def ok_def)

section \<open>The client's polls and the markers\<close>

lemma fetchVehiclePositions_failed:
  assumes "fetch_failed resp"
  shows "fetchVehiclePositions resp st = st"
  using assms by (cases resp) (auto simp: fetchVehiclePositions_def fetchVehiclePositions_try_def)

text \<open>
  C4 at a vehicles fetch that the server answered with status 500, on a page that shows
  predictions and a marker from an earlier poll. The claim has an error placeholder
  shown and the earlier data gone. The \<^verbatim>\<open>catch\<close> of \<open>fetchVehiclePositions\<close> only logs the
  error: the marker of the earlier poll is still on the map, and nothing on the page has
  changed. On an answer of the same kind \<open>fetchPredictions\<close> does what the claim says, and
  writes the placeholder over the predictions shown in both containers.
\<close>

theorem failed_vehicles_fetch_keeps_markers:
  "fetch_failed (Fetched 500 (JsonObject \<lparr> vehicles = None \<rparr>) :: string vehicles_body fetched)
   \<and> markers (fetchVehiclePositions (Fetched 500 (JsonObject \<lparr> vehicles = None \<rparr>)) stale_state)
       = [sample_marker]
   \<and> fetchVehiclePositions (Fetched 500 (JsonObject \<lparr> vehicles = None \<rparr>)) stale_state
       = stale_state
   \<and> fetch_failed (Fetched 500 (JsonObject \<lparr> inbound = None, outbound = None \<rparr>))
   \<and> fetchPredictions sample_clock sample_clock 1000000
         (Fetched 500 (JsonObject \<lparr> inbound = None, outbound = None \<rparr>)) stale_state
       = stale_state\<lparr>inbound_predictions := ErrorLoadingPredictions,
                    outbound_predictions := ErrorLoadingPredictions\<rparr>
   \<and> inbound_predictions stale_state
       = Rendered (Some ''Inbound to Downtown'')
           [\<lparr> minutes = Num 2, destination = Some ''Embarcadero'', atStop = False \<rparr>]"
  by (simp add: fetchVehiclePositions_def fetchVehiclePositions_try_def fetchPredictions_def
      fetchPredictions_try_def stale_state_def ok_def)

text \<open>
  C10. When the vehicles fetch succeeds with an empty list, or while the map is not
  loaded, \<open>updateMapMarkers\<close> is not called: the \<^verbatim>\<open>try\<close> block ends with the state it
  started from, so the markers of the earlier poll stay. Had it been called with the
  empty list, it would have removed them.
\<close>

theorem empty_vehicles_keep_markers:
  "(ok status \<and> (vs = [] \<or> \<not> mapLoaded st) \<longrightarrow>
      fetchVehiclePositions_try (Fetched status (JsonObject \<lparr> vehicles = Some vs \<rparr>)) st = Inr st
      \<and> fetchVehiclePositions (Fetched status (JsonObject \<lparr> vehicles = Some vs \<rparr>)) st = st)
   \<and> markers (updateMapMarkers [] st) = []"
  by (auto simp: fetchVehiclePositions_def fetchVehiclePositions_try_def updateMapMarkers_def)

theorem empty_vehicles_keep_markers_witness:
  "ok 200
   \<and> fetchVehiclePositions (Fetched 200 (JsonObject \<lparr> vehicles = Some [] \<rparr>)) stale_state = stale_state
   \<and> markers stale_state = [sample_marker]
   \<and> markers (updateMapMarkers [] stale_state) = []
   \<and> \<not> mapLoaded (stale_state\<lparr>mapLoaded := False\<rparr>)
   \<and> fetchVehiclePositions
        (Fetched 200 (JsonObject \<lparr> vehicles = Some (projr (gateway sample_feed)) \<rparr>))
        (stale_state\<lparr>mapLoaded := False\<rparr>) = stale_state\<lparr>mapLoaded := False\<rparr>"
  using empty_vehicles_keep_markers[of 200 "[]" stale_state]
        empty_vehicles_keep_markers
          [of 200 "projr (gateway sample_feed)" "stale_state\<lparr>mapLoaded := False\<rparr>"]
  by (simp add: stale_state_def ok_def)


section \<open>The vehicle timestamp\<close>

lemma sint_eq_uint_32:
  fixes w :: "32 word"
  assumes "uint w < 2 ^ 31"
  shows "sint w = uint w"
proof -
  have "sint w = signed_take_bit 31 (uint w)" by (simp add: sint_uint)
  also have "\<dots> = uint w"
  proof (rule signed_take_bit_int_eq_self)
    have "- (2 ^ 31) \<le> (0 :: int)" by simp
    also have "0 \<le> uint w" by simp
    finally show "- (2 ^ 31) \<le> uint w" .
    show "uint w < 2 ^ 31" by (rule assms)
  qed
  finally show ?thesis .
qed

text \<open>The server copies the timestamp as it was decoded.\<close>

lemma prettify_timestamp:
  assumes "prettify e = Inr p"
  shows "\<exists>v. FeedEntity.vehicle e = Some v \<and> timestamp p = VehiclePosition.timestamp v
          \<and> rawTimestamp p = VehiclePosition.timestamp v"
  using assms by (auto simp: prettify_def split: option.splits)

lemma to_double_small:
  assumes "\<bar>x\<bar> < 2 ^ 53"
  shows "to_double x = x"
proof -
  from assms have "nat \<bar>x\<bar> < 2 ^ 53" by (simp add: nat_less_iff)
  then have "excess_bits (nat \<bar>x\<bar>) = 0" by (simp add: excess_bits.simps)
  then show ?thesis by (simp add: to_double_def)
qed

lemma milliseconds_exact:
  assumes u: "unsigned t" and l: "uint (low t) < 2 ^ 31"
      and r: "1000 * Long_value t \<le> 8640000000000000"
  shows "milliseconds_of t = 1000 * Long_value t"
proof -
  have v: "Long_value t = uint (high t) * 4294967296 + uint (low t)"
    using u by (simp add: Long_value_def)
  have l0: "0 \<le> uint (low t)" and h0: "0 \<le> uint (high t)" by simp_all
  from v r l0 have "uint (high t) * 4294967296 \<le> 8640000000000" by linarith
  with h0 have h: "uint (high t) < 2 ^ 31" by simp
  have sl: "sint (low t) = uint (low t)" using l by (rule sint_eq_uint_32)
  have sh: "sint (high t) = uint (high t)" using h by (rule sint_eq_uint_32)
  have b1: "\<bar>uint (low t) * 1000\<bar> < 2 ^ 53" using l l0 by simp
  have "uint (high t) * 4294967296000 \<le> 8640000000000000" using v r l0 by linarith
  then have b2: "\<bar>uint (high t) * 4294967296000\<bar> < 2 ^ 53" using h0 by simp
  have e: "uint (low t) * 1000 + uint (high t) * 4294967296000 = 1000 * Long_value t"
    using v by simp
  have "0 \<le> 1000 * Long_value t" using v l0 h0 by simp
  then have b3: "\<bar>1000 * Long_value t\<bar> < 2 ^ 53" using r by simp
  have p1: "js_times (sint (low t)) 1000 = uint (low t) * 1000"
    unfolding js_times_def sl using b1 by (rule to_double_small)
  have p2: "js_times (sint (high t)) 4294967296000 = uint (high t) * 4294967296000"
    unfolding js_times_def sh using b2 by (rule to_double_small)
  have "js_plus (uint (low t) * 1000) (uint (high t) * 4294967296000) = 1000 * Long_value t"
    unfolding js_plus_def e using b3 by (rule to_double_small)
  then show ?thesis by (simp only: milliseconds_of_def p1 p2)
qed

text \<open>
  C5, as the program has it. The server copies the decoded \<open>Long\<close> into \<open>timestamp\<close> and
  \<open>rawTimestamp\<close> unchanged. The script rebuilds the milliseconds from the two words in
  double arithmetic; when the low word is below \<open>2^31\<close> and the time is one a \<^verbatim>\<open>Date\<close>
  can hold, the result is exactly 1000 times the wide integer, and that is the time
  rendered.
\<close>

theorem timestamp_exact_within_range:
  "(prettify e = Inr p \<longrightarrow>
      (\<exists>v. FeedEntity.vehicle e = Some v \<and> timestamp p = VehiclePosition.timestamp v
           \<and> rawTimestamp p = VehiclePosition.timestamp v))
   \<and> (unsigned t \<and> uint (low t) < 2 ^ 31 \<and> 1000 * Long_value t \<le> 8640000000000000 \<longrightarrow>
        milliseconds_of t = 1000 * Long_value t
        \<and> formatTimestamp (LongTimestamp t) = LocaleTime (1000 * Long_value t))"
proof (intro conjI impI)
  assume "prettify e = Inr p"
  then show "\<exists>v. FeedEntity.vehicle e = Some v \<and> timestamp p = VehiclePosition.timestamp v
           \<and> rawTimestamp p = VehiclePosition.timestamp v"
    by (rule prettify_timestamp)
next
  assume a: "unsigned t \<and> uint (low t) < 2 ^ 31 \<and> 1000 * Long_value t \<le> 8640000000000000"
  then show m: "milliseconds_of t = 1000 * Long_value t" by (intro milliseconds_exact) simp_all
  have "0 \<le> Long_value t" using a by (simp add: Long_value_def)
  with a show "formatTimestamp (LongTimestamp t) = LocaleTime (1000 * Long_value t)"
    by (simp add: formatTimestamp_def m Date_text_def)
qed

theorem timestamp_exact_within_range_witness:
  "prettify (sample_entity ''K'' ''2051'' 1 ''17109'')
     = Inr \<lparr> trainId = ''K2051'', routeId = ''K'', direction = 0, stopId = ''17109'',
             currentStopSequence = 3, currentStatus = 1, latitude = None, longitude = None,
             speed = None, timestamp = timestamp_2024, rawTimestamp = timestamp_2024 \<rparr>
   \<and> unsigned timestamp_2024 \<and> uint (low timestamp_2024) < 2 ^ 31
   \<and> 1000 * Long_value timestamp_2024 = 1706600000000
   \<and> formatTimestamp (LongTimestamp timestamp_2024) = LocaleTime 1706600000000"
  using timestamp_exact_within_range
          [of "sample_entity ''K'' ''2051'' 1 ''17109''"
              "\<lparr> trainId = ''K2051'', routeId = ''K'', direction = 0, stopId = ''17109'',
                 currentStopSequence = 3, currentStatus = 1, latitude = None, longitude = None,
                 speed = None, timestamp = timestamp_2024, rawTimestamp = timestamp_2024 \<rparr>"
              timestamp_2024]
  by (simp add: sample_entity_def prettify_def vehicle_id_text_def timestamp_2024_def Long_value_def)

text \<open>
  Against C5 as it is written: the milliseconds are rebuilt in floating point, and for a
  large value the sum is rounded. At \<open>low = 1\<close>, \<open>high = 4194304\<close> the script computes
  \<open>18014398509481984000\<close> where the exact product is \<open>18014398509481985000\<close>.
\<close>

theorem timestamp_precision_lost:
  "milliseconds_of far_timestamp = 18014398509481984000
   \<and> 1000 * Long_value far_timestamp = 18014398509481985000"
  by (simp add: far_timestamp_def milliseconds_of_def js_plus_def js_times_def to_double_def
      excess_bits.simps Long_value_def Let_def)

text \<open>
  Apart from the rounding, the script reads the low word as a signed number. At the
  timestamp 2147483648 (2038-01-19T03:14:08Z) the low word has its top bit set, and
  \<open>formatTimestamp\<close> renders the time value \<open>-2147483648000\<close>, in 1901, where the exact
  conversion is \<open>2147483648000\<close>.
\<close>

lemma formatTimestamp_2038:
  "Long_value timestamp_2038 = 2147483648
   \<and> sint (low timestamp_2038) = - 2147483648
   \<and> formatTimestamp (LongTimestamp timestamp_2038) = LocaleTime (- 2147483648000)
   \<and> Date_text (1000 * Long_value timestamp_2038) = LocaleTime 2147483648000"
  by (simp add: timestamp_2038_def Long_value_def formatTimestamp_def milliseconds_of_def
      js_plus_def js_times_def to_double_def excess_bits.simps Date_text_def Let_def)


section \<open>The stop cache\<close>

lemma stops_forEach_written:
  "list_all stop_written ss \<Longrightarrow>
   stops_forEach ln ss m
   = (None, fold (\<lambda>x. set_stop (fst x) (snd x)) (List.map_filter (map_option (Pair ln)) ss) m)"
  by (induction ss arbitrary: m)
     (auto simp: stop_written_def List.map_filter_simps split: option.splits)

lemma routes_forEach_written:
  "list_all route_written rs \<Longrightarrow>
   routes_forEach rs m
   = (None, fold (\<lambda>x. set_stop (fst x) (snd x)) (concat (map route_stops rs)) m)"
proof (induction rs arbitrary: m)
  case Nil
  show ?case by simp
next
  case (Cons r rs)
  from Cons.prems have first: "route_written r" and rest: "list_all route_written rs"
    by simp_all
  from first obtain rt ss where r: "r = Some rt" and ss: "stops rt = Some ss"
    and all: "list_all stop_written ss"
    by (auto simp: route_written_def split: option.splits)
  show ?case
    using Cons.IH [OF rest] stops_forEach_written [OF all, of "route.line rt"]
    by (simp add: r ss route_stops_def)
qed

lemma loadAllStops_written:
  "written d \<Longrightarrow>
   loadAllStops (Fetched status (JsonObject d)) m
   = fold (\<lambda>x. set_stop (fst x) (snd x)) (dataset_stops d) m"
  by (auto simp: written_def loadAllStops_def dataset_stops_def routes_forEach_written
           split: option.splits)

lemma dataset_stops_written:
  assumes "written d" and "x \<in> set (dataset_stops d)"
  shows "truthy_str (stop.id' (snd x)) \<and> truthy_str (stop.name (snd x))"
proof -
  from assms obtain rs r where rs: "routes d = Some rs" and r: "r \<in> set rs"
    and x: "x \<in> set (route_stops r)" and ok: "route_written r"
    by (auto simp: written_def dataset_stops_def list_all_iff split: option.splits)
  from x ok obtain rt ss where "r = Some rt" and "stops rt = Some ss"
    and "list_all stop_written ss"
    and "x \<in> set (List.map_filter (map_option (Pair (route.line rt))) ss)"
    by (auto simp: route_written_def route_stops_def split: option.splits)
  then show ?thesis
    by (auto simp: List.map_filter_def list_all_iff stop_written_def split: option.splits)
qed

lemma case_snoc_last:
  "(case ys @ [x] of [] \<Rightarrow> a | y # zs \<Rightarrow> f (last (y # zs))) = f x"
  by (cases ys) auto

lemma fold_set_stop_last:
  "\<forall>x \<in> set xs. truthy_str (stop.id' (snd x)) \<and> truthy_str (stop.name (snd x)) \<Longrightarrow>
   fold (\<lambda>x. set_stop (fst x) (snd x)) xs m i
   = (case filter (\<lambda>x. stop.id' (snd x) = Some i) xs of
        [] \<Rightarrow> m i
      | y # ys \<Rightarrow> record_of (last (y # ys)))"
proof (induction xs rule: rev_induct)
  case Nil
  show ?case by simp
next
  case (snoc x xs)
  from snoc.prems obtain j n where j: "stop.id' (snd x) = Some j" "j \<noteq> []"
    and n: "stop.name (snd x) = Some n" "n \<noteq> []"
    by (cases "stop.id' (snd x)"; cases "stop.name (snd x)") auto
  from snoc.prems have IH: "fold (\<lambda>x. set_stop (fst x) (snd x)) xs m i
   = (case filter (\<lambda>x. stop.id' (snd x) = Some i) xs of
        [] \<Rightarrow> m i
      | y # ys \<Rightarrow> record_of (last (y # ys)))"
    by (intro snoc.IH) simp
  show ?case
  proof (cases "j = i")
    case True
    have "set_stop (fst x) (snd x) M i = record_of x" for M
      using True j n by (simp add: set_stop_def record_of_def)
    then show ?thesis
      using True j by (simp add: case_snoc_last)
  next
    case False
    have "set_stop (fst x) (snd x) M i = M i" for M
      using False j n by (simp add: set_stop_def)
    then show ?thesis
      using False j IH by simp
  qed
qed

lemma stop_with_id_found:
  assumes "written d" and "Some i \<in> set (dataset_stop_ids d)"
  shows "\<exists>x \<in> set (dataset_stops d). stop.id' (snd x) = Some i \<and> stop_with_id d i = record_of x
           \<and> record_of x \<noteq> None"
proof -
  let ?ys = "filter (\<lambda>x. stop.id' (snd x) = Some i) (dataset_stops d)"
  from assms(2) obtain x where "x \<in> set (dataset_stops d)" and "stop.id' (snd x) = Some i"
    by (auto simp: dataset_stop_ids_def)
  then have ne: "?ys \<noteq> []"
    by (auto simp: filter_empty_conv)
  then have "last ?ys \<in> set ?ys" by (rule last_in_set)
  then have mem: "last ?ys \<in> set (dataset_stops d)" and idl: "stop.id' (snd (last ?ys)) = Some i"
    by auto
  from dataset_stops_written [OF assms(1) mem] have "record_of (last ?ys) \<noteq> None"
    by (cases "stop.name (snd (last ?ys))") (auto simp: record_of_def)
  moreover from ne have "stop_with_id d i = record_of (last ?ys)"
    by (cases ?ys) (auto simp: stop_with_id_def)
  ultimately show ?thesis using mem idl by blast
qed

lemma loaded_stop:
  assumes "written d" and "Some i \<in> set (dataset_stop_ids d)"
  shows "loadAllStops (Fetched status (JsonObject d)) m i = stop_with_id d i"
proof -
  let ?ys = "filter (\<lambda>x. stop.id' (snd x) = Some i) (dataset_stops d)"
  from assms(2) obtain x where "x \<in> set (dataset_stops d)" and "stop.id' (snd x) = Some i"
    by (auto simp: dataset_stop_ids_def)
  then have ne: "?ys \<noteq> []"
    by (auto simp: filter_empty_conv)
  have "loadAllStops (Fetched status (JsonObject d)) m i
        = (case ?ys of [] \<Rightarrow> m i | y # ys \<Rightarrow> record_of (last (y # ys)))"
    unfolding loadAllStops_written [OF assms(1)]
    by (rule fold_set_stop_last) (use dataset_stops_written [OF assms(1)] in blast)
  with ne show ?thesis by (cases ?ys) (auto simp: stop_with_id_def)
qed

lemma set_first_occurrences: "set (first_occurrences xs) = set xs"
  by (simp add: first_occurrences_def)

lemma with_gtfs_id_name:
  "stop.id' (with_gtfs g s) = stop.id' s \<and> stop.name (with_gtfs g s) = stop.name s"
  by (simp add: with_gtfs_def split: option.splits)

lemma stopInfo_id_name:
  "stop.id' (stopInfo p) = ScheduledStopPointRef p \<and> stop.name (stopInfo p) = Name p"
  by (simp add: stopInfo_def Let_def split: option.splits)

lemma fetched_stops_written:
  "s \<in> set (fetched_stops ps) \<Longrightarrow> truthy_str (stop.id' s) \<and> truthy_str (stop.name s)"
  by (auto simp: fetched_stops_def set_first_occurrences stopInfo_id_name)

lemma routesData_written: "written (routesData g rs)"
  by (auto simp: written_def routesData_def list_all_iff List.map_filter_def route_written_def
                 stop_written_def with_gtfs_id_name fetched_stops_written)

text \<open>
  C6. The generator writes a stop only under the guard
  \<^verbatim>\<open>if (point.ScheduledStopPointRef && point.Name)\<close>, and leaves out a route whose patterns
  it could not fetch: in the dataset it writes, every route has its stops, and every stop
  an id and a name that are not empty. After such a dataset is loaded, whatever the
  cache held before, the lookup of every stop id of the dataset succeeds, and it returns
  the record of a stop of the dataset with that id: its name, line and coordinates,
  those of the last such stop in the file when lines share the id.
\<close>

theorem stop_cache_round_trip:
  "written (routesData gtfsStops fetched_routes)
   \<and> (written d \<and> Some i \<in> set (dataset_stop_ids d) \<longrightarrow>
        (\<exists>x \<in> set (dataset_stops d). stop.id' (snd x) = Some i \<and> stop_with_id d i = record_of x)
        \<and> stop_with_id d i \<noteq> None
        \<and> validateStop (loadAllStops (Fetched status (JsonObject d)) allStops) i
          = \<lparr> isValid = True, details = stop_with_id d i \<rparr>)"
proof (intro conjI impI)
  show "written (routesData gtfsStops fetched_routes)" by (rule routesData_written)
next
  assume a: "written d \<and> Some i \<in> set (dataset_stop_ids d)"
  then have w: "written d" and i: "Some i \<in> set (dataset_stop_ids d)" by simp_all
  from stop_with_id_found [OF w i]
  show "\<exists>x \<in> set (dataset_stops d). stop.id' (snd x) = Some i \<and> stop_with_id d i = record_of x"
    by blast
  from stop_with_id_found [OF w i] show ne: "stop_with_id d i \<noteq> None" by auto
  show "validateStop (loadAllStops (Fetched status (JsonObject d)) allStops) i
          = \<lparr> isValid = True, details = stop_with_id d i \<rparr>"
    using ne by (simp add: validateStop_def loaded_stop [OF w i])
qed

lemmas eval_dataset =
  sample_dataset_def routesData_def sample_routes_def sample_pattern_def sample_point_def
  sample_gtfs_def fetched_stops_def first_occurrences_def pattern_points_def stopInfo_def
  with_gtfs_def List.map_filter_def dataset_stops_def dataset_stop_ids_def route_stops_def
  stop_with_id_def record_of_def

theorem stop_cache_round_trip_witness:
  "written sample_dataset
   \<and> dataset_stop_ids sample_dataset = [Some ''15779'', Some ''15779'', Some ''17778'']
   \<and> Some ''15779'' \<in> set (dataset_stop_ids sample_dataset)
   \<and> validateStop (loadAllStops (Fetched 200 (JsonObject sample_dataset)) Map.empty) ''15779''
     = \<lparr> isValid = True,
         details = Some \<lparr> name = ''West Portal Station'', line = Some ''M'',
                           lat = Some ''37.7409'', long = Some ''-122.4656'' \<rparr> \<rparr>"
  using stop_cache_round_trip [of sample_gtfs sample_routes sample_dataset "''15779''" 200 Map.empty]
  by (simp add: eval_dataset)

end
